theory Spec2Isabelle
  imports Main "HOL-Library.Sublist"
begin

section \<open>Code execution routes: \<^verbatim>\<open>backend/routes/execution_enhanced.js\<close>\<close>

text \<open>
  The module is an Express router. Its \<^verbatim>\<open>POST /execute\<close> handler validates the request
  body, then runs JavaScript inside a VM2 sandbox and every other language through
  external processes started with \<^verbatim>\<open>child_process.spawn\<close> in a per-execution temp
  directory.

  The embedding keeps the control flow of the JavaScript functions. Everything the
  module receives from outside (the file system, the child processes, the clock, the
  UUID generator and the behaviour of the submitted script inside the VM) is a field
  of the record \<open>env\<close>; everything the module does to the outside is appended to
  a list of \<open>effect\<close>s, in program order. Strings are \<open>string\<close>; a character stands
  for one JavaScript code unit of the Latin-1 range.

  Executions reach the handler through the execution service of the front end
  (\<^verbatim>\<open>frontend/src/platform/ai/AIService.js\<close>), which limits how many of them run at
  once and queues the others; its \<^verbatim>\<open>executeCode\<close> is embedded in the same way, on
  a record of the three fields it keeps for that.
\<close>

subsection \<open>Constants and the language table\<close>

definition EXECUTION_TIMEOUT :: nat where
  "EXECUTION_TIMEOUT = 30000"

text \<open>
  One entry of \<^verbatim>\<open>LANGUAGE_CONFIGS\<close>. A property the object literal does not
  define is \<open>None\<close> (JavaScript \<^verbatim>\<open>undefined\<close>).
\<close>

record language_config =
  extension :: string
  runner :: string
  args :: "string list option"
  sandbox :: "bool option"
  memoryLimit :: "nat option"
  compile :: "bool option"
  compiler :: "string option"
  compilerArgs :: "string list option"

definition interpreted :: "string \<Rightarrow> string \<Rightarrow> language_config" where
  "interpreted ext run =
     \<lparr>extension = ext, runner = run, args = None, sandbox = None, memoryLimit = None,
      compile = None, compiler = None, compilerArgs = None\<rparr>"

definition compiled :: "string \<Rightarrow> string \<Rightarrow> string \<Rightarrow> language_config" where
  "compiled ext run cc =
     (interpreted ext run)\<lparr>compile := Some True, compiler := Some cc\<rparr>"

definition LANGUAGE_CONFIGS :: "(string \<times> language_config) list" where
  "LANGUAGE_CONFIGS =
    [(''javascript'', (interpreted ''.js'' ''node'')
        \<lparr>sandbox := Some True, memoryLimit := Some (128 * 1024 * 1024)\<rparr>),
     (''python'', (interpreted ''.py'' ''python'')
        \<lparr>args := Some [''-u''], sandbox := Some False\<rparr>),
     (''typescript'', (interpreted ''.ts'' ''ts-node'')\<lparr>sandbox := Some False\<rparr>),
     (''java'', compiled ''.java'' ''java'' ''javac''),
     (''cpp'', (compiled ''.cpp'' ''./program'' ''g++'')
        \<lparr>compilerArgs := Some [''-o'', ''program'']\<rparr>),
     (''c'', (compiled ''.c'' ''./program'' ''gcc'')
        \<lparr>compilerArgs := Some [''-o'', ''program'']\<rparr>),
     (''go'', (interpreted ''.go'' ''go'')\<lparr>args := Some [''run'']\<rparr>),
     (''rust'', (compiled ''.rs'' ''./program'' ''rustc'')
        \<lparr>compilerArgs := Some [''-o'', ''program'']\<rparr>),
     (''php'', interpreted ''.php'' ''php''),
     (''ruby'', interpreted ''.rb'' ''ruby''),
     (''shell'', interpreted ''.sh'' ''bash'')]"

text \<open>JavaScript truthiness of an optional boolean, and \<^verbatim>\<open>x || []\<close>.\<close>

definition truthy :: "bool option \<Rightarrow> bool" where
  "truthy b = (b = Some True)"

definition or_empty :: "'a list option \<Rightarrow> 'a list" where
  "or_empty xs = (case xs of None \<Rightarrow> [] | Some ys \<Rightarrow> ys)"

subsection \<open>Child processes\<close>

text \<open>
  What \<^verbatim>\<open>spawn\<close> is called with: the command, the argument vector and the options
  object. Both call sites pass exactly \<^verbatim>\<open>cwd\<close> and \<^verbatim>\<open>timeout\<close>; neither passes
  \<^verbatim>\<open>shell\<close>.
\<close>

record spawn_options =
  cwd :: string
  timeout :: nat

text \<open>
  The events of a child process object: \<^verbatim>\<open>data\<close> on stdout and stderr,
  \<^verbatim>\<open>close\<close> with the exit code (\<open>None\<close> is JavaScript \<^verbatim>\<open>null\<close>: the process was
  ended by a signal), \<^verbatim>\<open>error\<close> with the error's message (the binary could not be
  started), and an \<^verbatim>\<open>error\<close> event of one of the child's three streams: of stdin
  when what \<^verbatim>\<open>runCode\<close> writes there cannot be delivered (\<^verbatim>\<open>EPIPE\<close>: the process
  is gone, or was never started), of stdout or stderr when reading fails. The
  module registers listeners for the first four kinds and for no other. The child
  process object is taken to have its three streams, as \<^verbatim>\<open>spawn\<close> returns it
  unless the descriptor table is exhausted.
\<close>

datatype proc_event =
    StdoutData string
  | StderrData string
  | Close "int option"
  | Error string
  | StreamError string

text \<open>The object \<^verbatim>\<open>{ success, output, error }\<close> that both steps resolve with.\<close>

record step_result =
  p_success :: bool
  p_output :: string
  p_error :: string

text \<open>
  How an (async) function ends: it returns a value; it throws an error with a
  message, which a \<^verbatim>\<open>try\<close> around the call catches; it awaits a promise that never
  resolves; or an \<^verbatim>\<open>error\<close> event without a listener is thrown from the event
  loop, where no \<^verbatim>\<open>try\<close> block catches it: the exception is uncaught and, the
  module and the server having no handler for that, ends the host process.
\<close>

datatype 'a outcome = Returns 'a | Throws string | Hangs | Uncaught string

text \<open>
  The listeners of \<^verbatim>\<open>compileCode\<close> and \<^verbatim>\<open>runCode\<close> are the same up to the prefix
  of the \<^verbatim>\<open>error\<close> message. \<open>listen\<close> runs them over the events in order, with the
  two local buffers \<^verbatim>\<open>output\<close> and \<^verbatim>\<open>error\<close>. The promise resolves at the first
  \<^verbatim>\<open>close\<close> or \<^verbatim>\<open>error\<close> event; later events change nothing of what it resolved
  with. When the events end without either, the promise never resolves. An error of
  a stream finds no listener and leaves the buffers and the promise as they are.
\<close>

fun listen :: "string \<Rightarrow> string \<Rightarrow> string \<Rightarrow> proc_event list \<Rightarrow> step_result outcome" where
  "listen pre out err [] = Hangs"
| "listen pre out err (StdoutData d # es) = listen pre (out @ d) err es"
| "listen pre out err (StderrData d # es) = listen pre out (err @ d) es"
| "listen pre out err (Close c # es) =
     Returns \<lparr>p_success = (c = Some 0), p_output = out,
              p_error = (if c \<noteq> Some 0 then err else '''')\<rparr>"
| "listen pre out err (Error m # es) =
     Returns \<lparr>p_success = False, p_output = '''', p_error = pre @ m\<rparr>"
| "listen pre out err (StreamError m # es) = listen pre out err es"

text \<open>
  The first error of a stream among the events, if there is one. Having no
  listener it is thrown from the event loop when it comes, be that before the
  promise resolves or after. Whether the response has been written out by then is
  a matter of how the event loop orders its ticks and microtasks, which is not
  modelled: a step whose child has such an event does not count as having returned.
\<close>

fun stream_error :: "proc_event list \<Rightarrow> string option" where
  "stream_error [] = None"
| "stream_error (StreamError m # es) = Some m"
| "stream_error (x # es) = stream_error es"

text \<open>What the function that awaits the promise of either step gets.\<close>

definition awaited :: "string \<Rightarrow> proc_event list \<Rightarrow> step_result outcome" where
  "awaited pre events =
     (case stream_error events of
        Some m \<Rightarrow> Uncaught m
      | None \<Rightarrow> listen pre '''' '''' events)"

text \<open>\<^verbatim>\<open>args.join(' ')\<close> and the other uses of \<^verbatim>\<open>Array.prototype.join\<close>.\<close>

fun join :: "string \<Rightarrow> string list \<Rightarrow> string" where
  "join sep [] = ''''"
| "join sep [x] = x"
| "join sep (x # y # ys) = x @ sep @ join sep (y # ys)"

text \<open>
  \<^verbatim>\<open>path.join\<close> of a directory and one more segment. The normalisation that
  \<^verbatim>\<open>path.join\<close> applies to \<^verbatim>\<open>..\<close> segments is not modelled.
\<close>

definition path_join :: "string \<Rightarrow> string \<Rightarrow> string" where
  "path_join dir seg = dir @ ''/'' @ seg"

subsection \<open>Effects\<close>

text \<open>The options the sandbox function constructs its \<^verbatim>\<open>VM\<close> with.\<close>

record vm_options =
  vm_timeout :: nat
  vm_eval :: bool
  vm_wasm :: bool
  vm_fixAsync :: bool

text \<open>The two callbacks the module hands to \<^verbatim>\<open>setTimeout\<close>.\<close>

datatype timer_task =
    CleanupTempDir string
  | RejectPromiseTimeout

datatype effect =
    ConsoleLog string
  | ConsoleWarn string
  | ConsoleError string
  | Mkdir string
  | WriteFile string string
  | Spawn string "string list" spawn_options
  | StdinWrite string
  | StdinEnd
  | Rmdir string
  | SetTimeout timer_task nat
  | NewVM vm_options

subsection \<open>\<^verbatim>\<open>compileCode\<close> and \<^verbatim>\<open>runCode\<close>\<close>

text \<open>
  The message of the \<^verbatim>\<open>TypeError\<close> that \<^verbatim>\<open>spawn\<close> throws when the command is
  \<^verbatim>\<open>undefined\<close> (the word file stands in double quotes). Every table entry with
  \<^verbatim>\<open>compile: true\<close> defines \<^verbatim>\<open>compiler\<close>, so the table never reaches it.
\<close>

definition spawn_type_error :: string where
  "spawn_type_error =
     ''The '' @ [CHR 0x22] @ ''file'' @ [CHR 0x22]
     @ '' argument must be of type string. Received undefined''"

definition compileCode ::
  "proc_event list \<Rightarrow> string \<Rightarrow> string \<Rightarrow> language_config \<Rightarrow> step_result outcome \<times> effect list"
where
  "compileCode events tempDir codeFileName config =
     (let cargs = or_empty (compilerArgs config) @ [codeFileName] in
      case compiler config of
        None \<Rightarrow>
          (Throws spawn_type_error,
           [ConsoleLog (''[Compilation] undefined '' @ join '' '' cargs)])
      | Some cc \<Rightarrow>
          (awaited ''Compilation failed: '' events,
           [ConsoleLog (''[Compilation] '' @ cc @ '' '' @ join '' '' cargs),
            Spawn cc cargs \<lparr>cwd = tempDir, timeout = EXECUTION_TIMEOUT\<rparr>]))"

definition runCode ::
  "proc_event list \<Rightarrow> string \<Rightarrow> string \<Rightarrow> language_config \<Rightarrow> string
     \<Rightarrow> step_result outcome \<times> effect list"
where
  "runCode events tempDir codeFileName config inp =
     (let command = runner config;
          rargs = or_empty (args config)
                  @ (if \<not> truthy (compile config) then [codeFileName] else [])
      in (awaited ''Execution failed: '' events,
          [ConsoleLog (''[Execution] '' @ command @ '' '' @ join '' '' rargs),
           Spawn command rargs \<lparr>cwd = tempDir, timeout = EXECUTION_TIMEOUT\<rparr>]
          @ (if inp \<noteq> '''' then [StdinWrite inp, StdinEnd] else [])))"

subsection \<open>Requests, responses and the environment\<close>

text \<open>
  The request body. The handler destructures \<^verbatim>\<open>code\<close>, \<^verbatim>\<open>language\<close>, \<^verbatim>\<open>input\<close>,
  \<^verbatim>\<open>projectId\<close> and \<^verbatim>\<open>filename\<close>; a body may carry further properties, of which
  \<^verbatim>\<open>timeoutMs\<close> and \<^verbatim>\<open>maxOutputBytes\<close> are kept here. An absent \<^verbatim>\<open>code\<close> or
  \<^verbatim>\<open>language\<close> is the empty string, which is what the validators see.
\<close>

record request =
  code :: string
  language :: string
  input :: "string option"
  projectId :: "string option"
  filename :: "string option"
  timeoutMs :: "nat option"
  maxOutputBytes :: "nat option"

text \<open>
  The JSON object passed to \<^verbatim>\<open>res.json\<close>, with the HTTP status. A property the
  object literal does not have is \<open>None\<close>; \<open>res_output\<close> and \<open>res_language\<close> are its
  \<^verbatim>\<open>output\<close> and \<^verbatim>\<open>language\<close>; \<open>errors\<close> holds the messages of
  \<^verbatim>\<open>errors.array()\<close>. The \<^verbatim>\<open>memoryUsage\<close> property of the sandbox's success object
  is left out.
\<close>

record response =
  status :: nat
  success :: bool
  executionId :: "string option"
  res_output :: "string option"
  error :: "string option"
  errors :: "string list"
  executionTime :: "int option"
  res_language :: "string option"
  stage :: "string option"

definition base_response :: response where
  "base_response =
     \<lparr>status = 200, success = False, executionId = None, res_output = None, error = None,
      errors = [], executionTime = None, res_language = None, stage = None\<rparr>"


subsection \<open>The sandbox object\<close>

text \<open>
  The values a script passes to the console functions or completes with. Numbers are
  the integers below \<open>10\<^sup>2\<^sup>1\<close> in absolute value, which \<^verbatim>\<open>String\<close> prints in decimal
  digits (from there on it prints an exponent); an object is kept as the two texts
  the module can obtain from it, \<^verbatim>\<open>JSON.stringify(v, null, 2)\<close> and \<^verbatim>\<open>String(v)\<close>.
\<close>

datatype js_value =
    JUndefined
  | JNull
  | JBool bool
  | JNum int
  | JStr string
  | JObject string string

fun digits :: "nat \<Rightarrow> string" where
  "digits n =
     (if n < 10 then [char_of (48 + n)] else digits (n div 10) @ [char_of (48 + n mod 10)])"

declare digits.simps [simp del]

fun js_String :: "js_value \<Rightarrow> string" where
  "js_String JUndefined = ''undefined''"
| "js_String JNull = ''null''"
| "js_String (JBool b) = (if b then ''true'' else ''false'')"
| "js_String (JNum n) = (if n < 0 then ''-'' @ digits (nat (- n)) else digits (nat n))"
| "js_String (JStr s) = s"
| "js_String (JObject j s) = s"

text \<open>
  \<^verbatim>\<open>typeof arg === 'object' ? JSON.stringify(arg, null, 2) : String(arg)\<close>;
  \<^verbatim>\<open>typeof null\<close> is \<^verbatim>\<open>'object'\<close>.
\<close>

fun format_arg :: "js_value \<Rightarrow> string" where
  "format_arg JNull = ''null''"
| "format_arg (JObject j s) = j"
| "format_arg v = js_String v"

text \<open>
  The source text of the module writes the line end of the console functions as
  \<^verbatim>\<open>'\\n'\<close>: a string of two characters, a backslash and the letter n.
\<close>

definition line_end :: string where
  "line_end = [CHR 0x5C, CHR ''n'']"

datatype console_method = CLog | CError | CWarn | CInfo

text \<open>
  The four functions of \<^verbatim>\<open>sandbox.console\<close>, on the pair of the local variables
  \<^verbatim>\<open>output\<close> and \<^verbatim>\<open>errorOutput\<close> of \<^verbatim>\<open>executeJavaScriptSandbox\<close>.
\<close>

fun console :: "console_method \<Rightarrow> js_value list \<Rightarrow> string \<times> string \<Rightarrow> string \<times> string" where
  "console CLog as (out, err) = (out @ join '' '' (map format_arg as) @ line_end, err)"
| "console CError as (out, err) = (out, err @ join '' '' (map format_arg as) @ line_end)"
| "console CWarn as (out, err) =
     (out @ ''[WARN] '' @ join '' '' (map format_arg as) @ line_end, err)"
| "console CInfo as (out, err) =
     (out @ ''[INFO] '' @ join '' '' (map format_arg as) @ line_end, err)"

definition allowedModules :: "string list" where
  "allowedModules = [''util'', ''crypto'', ''path'']"

definition not_allowed :: "string \<Rightarrow> string" where
  "not_allowed m = ''Module '' @ [CHR 0x27] @ m @ [CHR 0x27] @ '' is not allowed in sandbox''"

text \<open>
  \<^verbatim>\<open>sandbox.require\<close>: it returns the host module (\<open>Inr\<close>) or throws the error whose
  message is \<open>Inl\<close>.
\<close>

definition sandbox_require :: "string \<Rightarrow> string + unit" where
  "sandbox_require m = (if m \<in> set allowedModules then Inr () else Inl (not_allowed m))"

subsection \<open>Scripts\<close>

text \<open>
  The submitted code runs inside VM2, which is not part of the module. A script is
  represented by what it does with the sandbox object: it finishes with a result, it
  throws (or the VM throws for it, as at the VM's timeout), it calls a console
  function and goes on, or it calls \<^verbatim>\<open>require\<close> and goes on with the first
  continuation when the call returns and with the second, applied to the error's
  message, when the call throws. The second continuation is what the script's own
  \<^verbatim>\<open>catch\<close> does; a script without one has \<open>Throw\<close> there.

  What a script throws, or a thenable rejects with, need not be an \<^verbatim>\<open>Error\<close>.
  \<open>Throw\<close> and \<open>Reject\<close> are for an object with the given string as
  \<^verbatim>\<open>message\<close>; \<open>ThrowValue\<close> and \<open>RejectValue\<close> are for the other values, told
  apart by what reading \<^verbatim>\<open>.message\<close> of them does: for a string, a number or an
  object without that property it gives \<^verbatim>\<open>undefined\<close>, for \<^verbatim>\<open>null\<close> and
  \<^verbatim>\<open>undefined\<close> it throws a \<^verbatim>\<open>TypeError\<close>.
\<close>

datatype non_error = NoMessage | IsNull | IsUndefined

datatype thrown = ErrorWith string | Other non_error

text \<open>
  The message of the engine's \<^verbatim>\<open>TypeError\<close> for reading \<^verbatim>\<open>.message\<close> of
  \<^verbatim>\<open>null\<close> or \<^verbatim>\<open>undefined\<close>, and the reading itself: the \<^verbatim>\<open>TypeError\<close>'s message
  (\<open>Inl\<close>) or the value read, \<open>None\<close> for \<^verbatim>\<open>undefined\<close>.
\<close>

definition cannot_read_message :: "string \<Rightarrow> string" where
  "cannot_read_message v =
     ''Cannot read properties of '' @ v @ '' (reading '' @ [CHR 0x27] @ ''message''
     @ [CHR 0x27] @ '')''"

fun read_message :: "thrown \<Rightarrow> string + string option" where
  "read_message (ErrorWith m) = Inr (Some m)"
| "read_message (Other NoMessage) = Inr None"
| "read_message (Other IsNull) = Inl (cannot_read_message ''null'')"
| "read_message (Other IsUndefined) = Inl (cannot_read_message ''undefined'')"

datatype 'a script =
    Finish 'a
  | Throw string
  | ThrowValue non_error
  | Console console_method "js_value list" "'a script"
  | Require string "'a script" "string \<Rightarrow> 'a script"

text \<open>
  A thenable settles by fulfilling, by rejecting with an error or with another
  value, or never. A script completes with a plain value or with a thenable, whose
  \<^verbatim>\<open>then\<close> is again a script.
\<close>

datatype settle = Fulfil js_value | Reject string | RejectValue non_error | Never

datatype completion = Value js_value | Thenable "settle script"

text \<open>
  Running a script against the sandbox object: the result is the thrown value or
  the script's result, with the two buffers as the console functions left them.
\<close>

primrec run_script :: "'a script \<Rightarrow> string \<times> string \<Rightarrow> (thrown + 'a) \<times> (string \<times> string)" where
  "run_script (Finish r) st = (Inr r, st)"
| "run_script (Throw m) st = (Inl (ErrorWith m), st)"
| "run_script (ThrowValue v) st = (Inl (Other v), st)"
| "run_script (Console c as k) st = run_script k (console c as st)"
| "run_script (Require m k h) st =
     (case sandbox_require m of
        Inr u \<Rightarrow> run_script k st
      | Inl e \<Rightarrow> run_script (h e) st)"

subsection \<open>\<^verbatim>\<open>String.prototype.trim\<close>\<close>

definition js_space :: "char \<Rightarrow> bool" where
  "js_space c = (c \<in> {CHR 0x09, CHR 0x0A, CHR 0x0B, CHR 0x0C, CHR 0x0D, CHR 0x20, CHR 0xA0})"

definition trim :: "string \<Rightarrow> string" where
  "trim s = rev (dropWhile js_space (rev (dropWhile js_space s)))"

subsection \<open>The environment\<close>

text \<open>
  \<open>uuid\<close> and \<open>uuid2\<close> are the results of the first and second call of
  \<^verbatim>\<open>crypto.randomUUID\<close>, \<open>temp_root\<close> is \<^verbatim>\<open>path.join(__dirname, '../../temp')\<close>,
  \<open>now_start\<close> and \<open>now_end\<close> are the two readings of \<^verbatim>\<open>Date.now()\<close> that
  \<^verbatim>\<open>executionTime\<close> is computed from. The three file-system results are \<open>None\<close>
  when the call succeeds and the error's message when it throws. \<open>vm_run\<close> gives
  the behaviour of a code text, with the global \<^verbatim>\<open>input\<close>, inside the VM.
\<close>

record env =
  uuid :: string
  uuid2 :: string
  temp_root :: string
  now_start :: int
  now_end :: int
  mkdir_result :: "string option"
  writeFile_result :: "string option"
  rmdir_result :: "string option"
  compile_events :: "proc_event list"
  run_events :: "proc_event list"
  vm_run :: "string \<Rightarrow> string \<Rightarrow> completion script"


subsection \<open>\<^verbatim>\<open>executeJavaScriptSandbox\<close>\<close>

definition sandbox_vm_options :: vm_options where
  "sandbox_vm_options =
     \<lparr>vm_timeout = EXECUTION_TIMEOUT, vm_eval = False, vm_wasm = False, vm_fixAsync = True\<rparr>"

text \<open>\<^verbatim>\<open>if (v !== undefined) output += String(v) + '\\n'\<close>.\<close>

definition append_result :: "js_value \<Rightarrow> string \<Rightarrow> string" where
  "append_result v out = (if v \<noteq> JUndefined then out @ js_String v @ line_end else out)"

definition promise_error :: "string \<Rightarrow> string \<Rightarrow> string" where
  "promise_error m err = err @ ''Promise error: '' @ m @ line_end"

definition sandbox_success :: "env \<Rightarrow> string \<Rightarrow> string \<Rightarrow> string \<Rightarrow> response" where
  "sandbox_success e execId out err =
     base_response\<lparr>success := True, executionId := Some execId,
       res_output := Some (trim out), error := Some (trim err),
       executionTime := Some (now_end e - now_start e),
       res_language := Some ''javascript''\<rparr>"

text \<open>
  The outer \<^verbatim>\<open>catch\<close> block. Its object literal reads \<^verbatim>\<open>error.message\<close>: a
  \<^verbatim>\<open>message\<close> that is \<^verbatim>\<open>undefined\<close> leaves the response without an \<^verbatim>\<open>error\<close>
  property, and the \<^verbatim>\<open>TypeError\<close> of the reading is thrown by the function itself.
\<close>

definition outer_catch :: "env \<Rightarrow> string \<Rightarrow> string \<Rightarrow> thrown \<Rightarrow> response outcome" where
  "outer_catch e execId out t =
     (case read_message t of
        Inr msg \<Rightarrow>
          Returns (base_response\<lparr>success := False, executionId := Some execId,
            res_output := Some (trim out), error := msg,
            executionTime := Some (now_end e - now_start e),
            res_language := Some ''javascript''\<rparr>)
      | Inl type_error \<Rightarrow> Throws type_error)"

text \<open>
  The inner \<^verbatim>\<open>catch\<close> block, around the awaited race. Its template literal reads
  \<^verbatim>\<open>promiseError.message\<close>, \<^verbatim>\<open>undefined\<close> printing as that word; the \<^verbatim>\<open>TypeError\<close>
  of the reading is thrown inside the outer \<^verbatim>\<open>try\<close> and goes to the outer
  \<^verbatim>\<open>catch\<close>.
\<close>

definition rejected ::
  "env \<Rightarrow> string \<Rightarrow> string \<Rightarrow> string \<Rightarrow> thrown \<Rightarrow> response outcome"
where
  "rejected e execId out err t =
     (case read_message t of
        Inr msg \<Rightarrow>
          Returns (sandbox_success e execId out
                     (promise_error (case msg of None \<Rightarrow> ''undefined'' | Some m \<Rightarrow> m) err))
      | Inl type_error \<Rightarrow> outer_catch e execId out (ErrorWith type_error))"

text \<open>
  The \<^verbatim>\<open>try\<close> block runs the script; a thenable result is raced against a timer of
  \<^verbatim>\<open>EXECUTION_TIMEOUT\<close>, whose rejection is an \<^verbatim>\<open>Error\<close> with the message
  \<^verbatim>\<open>Promise timeout\<close>. A \<^verbatim>\<open>then\<close> that throws rejects the race with what it threw.
\<close>

definition executeJavaScriptSandbox ::
  "env \<Rightarrow> string \<Rightarrow> string \<Rightarrow> string \<Rightarrow> response outcome \<times> effect list"
where
  "executeJavaScriptSandbox e code_text inp execId =
     (case run_script (vm_run e code_text inp) ('''', '''') of
        (Inl t, (out, err)) \<Rightarrow>
          (outer_catch e execId out t, [NewVM sandbox_vm_options])
      | (Inr (Value v), (out, err)) \<Rightarrow>
          (Returns (sandbox_success e execId (append_result v out) err),
           [NewVM sandbox_vm_options])
      | (Inr (Thenable th), (out, err)) \<Rightarrow>
          (case run_script th (out, err) of
             (Inr (Fulfil v), (out', err')) \<Rightarrow>
               Returns (sandbox_success e execId (append_result v out') err')
           | (Inr (Reject m), (out', err')) \<Rightarrow>
               rejected e execId out' err' (ErrorWith m)
           | (Inr (RejectValue v), (out', err')) \<Rightarrow>
               rejected e execId out' err' (Other v)
           | (Inl t, (out', err')) \<Rightarrow>
               rejected e execId out' err' t
           | (Inr Never, (out', err')) \<Rightarrow>
               rejected e execId out' err' (ErrorWith ''Promise timeout''),
           [NewVM sandbox_vm_options, SetTimeout RejectPromiseTimeout EXECUTION_TIMEOUT]))"

subsection \<open>\<^verbatim>\<open>executeExternalProcess\<close>\<close>

text \<open>
  The callback of the deferred clean-up: \<^verbatim>\<open>fs.rmdir\<close> inside its own \<^verbatim>\<open>try\<close>, a
  warning on the console when it throws.
\<close>

definition cleanup_task :: "env \<Rightarrow> string \<Rightarrow> unit outcome \<times> effect list" where
  "cleanup_task e tempDir =
     (case rmdir_result e of
        None \<Rightarrow> (Returns (), [Rmdir tempDir])
      | Some m \<Rightarrow>
          (Returns (),
           [Rmdir tempDir, ConsoleWarn (''Failed to clean up temp directory: '' @ m)]))"

text \<open>
  The \<^verbatim>\<open>catch\<close> block: \<^verbatim>\<open>fs.rmdir\<close> at once, whatever it throws is ignored, then the
  failure object.
\<close>

definition external_catch ::
  "env \<Rightarrow> string \<Rightarrow> string \<Rightarrow> string \<Rightarrow> string \<Rightarrow> effect list
     \<Rightarrow> response outcome \<times> effect list"
where
  "external_catch e tempDir execId lang m effs =
     (Returns (base_response\<lparr>success := False, executionId := Some execId,
        res_output := Some '''', error := Some m,
        executionTime := Some (now_end e - now_start e), res_language := Some lang\<rparr>),
      effs @ (case rmdir_result e of None \<Rightarrow> [Rmdir tempDir] | Some ignored \<Rightarrow> [Rmdir tempDir]))"

text \<open>
  The part of the \<^verbatim>\<open>try\<close> block from \<^verbatim>\<open>runCode\<close> on; \<open>out\<close> is the local
  \<^verbatim>\<open>output\<close> (the compiler's stdout, or empty).
\<close>

definition run_step ::
  "env \<Rightarrow> string \<Rightarrow> string \<Rightarrow> language_config \<Rightarrow> string \<Rightarrow> string \<Rightarrow> string \<Rightarrow> string
     \<Rightarrow> effect list \<Rightarrow> response outcome \<times> effect list"
where
  "run_step e tempDir codeFileName config inp execId lang out effs =
     (case runCode (run_events e) tempDir codeFileName config inp of
        (Throws m, re) \<Rightarrow> external_catch e tempDir execId lang m (effs @ re)
      | (Hangs, re) \<Rightarrow> (Hangs, effs @ re)
      | (Uncaught m, re) \<Rightarrow> (Uncaught m, effs @ re)
      | (Returns executeResult, re) \<Rightarrow>
          (Returns (base_response\<lparr>success := p_success executeResult,
             executionId := Some execId,
             res_output := Some (trim (out @ p_output executeResult)),
             error := Some (trim (p_error executeResult)),
             executionTime := Some (now_end e - now_start e),
             res_language := Some lang, stage := Some ''execution''\<rparr>),
           effs @ re @ [SetTimeout (CleanupTempDir tempDir) 5000]))"

text \<open>\<^verbatim>\<open>filename || `code${config.extension}`\<close>.\<close>

definition file_name :: "string option \<Rightarrow> language_config \<Rightarrow> string" where
  "file_name fname config =
     (case fname of
        None \<Rightarrow> ''code'' @ extension config
      | Some f \<Rightarrow> if f = '''' then ''code'' @ extension config else f)"

definition executeExternalProcess ::
  "env \<Rightarrow> string \<Rightarrow> string \<Rightarrow> language_config \<Rightarrow> string \<Rightarrow> string \<Rightarrow> string option
     \<Rightarrow> string option \<Rightarrow> response outcome \<times> effect list"
where
  "executeExternalProcess e code_text lang config inp execId project fname =
     (let tempDir = path_join (temp_root e) execId in
      case mkdir_result e of
        Some m \<Rightarrow> external_catch e tempDir execId lang m [Mkdir tempDir]
      | None \<Rightarrow>
          (let codeFileName = file_name fname config;
               codeFilePath = path_join tempDir codeFileName;
               written = [Mkdir tempDir, WriteFile codeFilePath code_text]
           in case writeFile_result e of
                Some m \<Rightarrow> external_catch e tempDir execId lang m written
              | None \<Rightarrow>
                  if truthy (compile config) then
                    (case compileCode (compile_events e) tempDir codeFileName config of
                       (Throws m, ce) \<Rightarrow>
                         external_catch e tempDir execId lang m (written @ ce)
                     | (Hangs, ce) \<Rightarrow> (Hangs, written @ ce)
                     | (Uncaught m, ce) \<Rightarrow> (Uncaught m, written @ ce)
                     | (Returns compileResult, ce) \<Rightarrow>
                         if \<not> p_success compileResult then
                           (Returns (base_response\<lparr>success := False,
                              executionId := Some execId, res_output := Some '''',
                              error := Some (p_error compileResult),
                              executionTime := Some (now_end e - now_start e),
                              res_language := Some lang, stage := Some ''compilation''\<rparr>),
                            written @ ce)
                         else run_step e tempDir codeFileName config inp execId lang
                                (p_output compileResult) (written @ ce))
                  else run_step e tempDir codeFileName config inp execId lang ''''
                         written))"

subsection \<open>The \<^verbatim>\<open>POST /execute\<close> handler\<close>

text \<open>
  The validation chain: \<^verbatim>\<open>code\<close> has length at least 1, \<^verbatim>\<open>language\<close> is a key of
  \<^verbatim>\<open>LANGUAGE_CONFIGS\<close>. (\<^verbatim>\<open>projectId\<close>, optional and a string, always passes for
  the values of this model.)
\<close>

definition validationResult :: "request \<Rightarrow> string list" where
  "validationResult r =
     (if length (code r) < 1 then [''Code is required''] else [])
     @ (if language r \<notin> set (map fst LANGUAGE_CONFIGS) then [''Unsupported language''] else [])"

text \<open>\<^verbatim>\<open>input = ''\<close>, the default of the destructuring.\<close>

definition input_or_default :: "request \<Rightarrow> string" where
  "input_or_default r = (case input r of None \<Rightarrow> '''' | Some i \<Rightarrow> i)"

text \<open>The handler's line on the console.\<close>

definition starting :: "string \<Rightarrow> string \<Rightarrow> effect" where
  "starting execId lang =
     ConsoleLog (''[Execution] Starting execution '' @ execId @ '' - Language: '' @ lang)"

text \<open>
  The body of the handler's \<^verbatim>\<open>try\<close>. With the validation passed the table lookup
  cannot be \<^verbatim>\<open>undefined\<close>; were it, reading a property of it would throw a
  \<^verbatim>\<open>TypeError\<close>.
\<close>

definition handler_try :: "request \<Rightarrow> env \<Rightarrow> response outcome \<times> effect list" where
  "handler_try r e =
     (let errs = validationResult r in
      if errs \<noteq> [] then
        (Returns (base_response\<lparr>status := 400, success := False, errors := errs\<rparr>), [])
      else
        (let inp = input_or_default r;
             execId = uuid e;
             started = [starting execId (language r)]
         in case map_of LANGUAGE_CONFIGS (language r) of
              None \<Rightarrow> (Throws ''Cannot read properties of undefined'', started)
            | Some config \<Rightarrow>
                (let (res, effs) =
                       (if language r = ''javascript'' \<and> truthy (sandbox config) then
                          executeJavaScriptSandbox e (code r) inp execId
                        else
                          executeExternalProcess e (code r) (language r) config inp
                            execId (projectId r) (filename r))
                 in (res, started @ effs))))"

text \<open>The handler's \<^verbatim>\<open>catch\<close>: it answers every thrown error with status 500.\<close>

definition handler_catch ::
  "env \<Rightarrow> response outcome \<times> effect list \<Rightarrow> response outcome \<times> effect list"
where
  "handler_catch e res =
     (case res of
        (Throws m, effs) \<Rightarrow>
          (Returns (base_response\<lparr>status := 500, success := False, error := Some m,
             executionId := Some (uuid2 e)\<rparr>),
           effs @ [ConsoleError (''Execution error: '' @ m)])
      | other \<Rightarrow> other)"

definition handler :: "request \<Rightarrow> env \<Rightarrow> response outcome \<times> effect list" where
  "handler r e = handler_catch e (handler_try r e)"


subsection \<open>Observations\<close>

text \<open>
  How a child process settles: with the first error of one of its streams when its
  events have one, otherwise with the first \<^verbatim>\<open>close\<close> or \<^verbatim>\<open>error\<close> event among
  them; and the data it wrote to stdout and to stderr before the first of these
  events.
\<close>

datatype settled = ExitCode "int option" | SpawnError string | StreamFailure string

fun exit_status :: "proc_event list \<Rightarrow> settled option" where
  "exit_status [] = None"
| "exit_status (StdoutData d # es) = exit_status es"
| "exit_status (StderrData d # es) = exit_status es"
| "exit_status (Close c # es) =
     (case stream_error es of None \<Rightarrow> Some (ExitCode c) | Some u \<Rightarrow> Some (StreamFailure u))"
| "exit_status (Error m # es) =
     (case stream_error es of None \<Rightarrow> Some (SpawnError m) | Some u \<Rightarrow> Some (StreamFailure u))"
| "exit_status (StreamError m # es) = Some (StreamFailure m)"

fun stdout_of :: "proc_event list \<Rightarrow> string" where
  "stdout_of [] = ''''"
| "stdout_of (StdoutData d # es) = d @ stdout_of es"
| "stdout_of (StderrData d # es) = stdout_of es"
| "stdout_of (Close c # es) = ''''"
| "stdout_of (Error m # es) = ''''"
| "stdout_of (StreamError m # es) = ''''"

fun stderr_of :: "proc_event list \<Rightarrow> string" where
  "stderr_of [] = ''''"
| "stderr_of (StdoutData d # es) = stderr_of es"
| "stderr_of (StderrData d # es) = d @ stderr_of es"
| "stderr_of (Close c # es) = ''''"
| "stderr_of (Error m # es) = ''''"
| "stderr_of (StreamError m # es) = ''''"

text \<open>The command and argument vector of every \<^verbatim>\<open>spawn\<close> call, in order.\<close>

fun spawns :: "effect list \<Rightarrow> (string \<times> string list) list" where
  "spawns [] = []"
| "spawns (Spawn c as opts # es) = (c, as) # spawns es"
| "spawns (x # es) = spawns es"

text \<open>
  Every time budget the module hands out: the \<^verbatim>\<open>timeout\<close> option of a \<^verbatim>\<open>spawn\<close>,
  the \<^verbatim>\<open>timeout\<close> option of the VM, the delay of the promise timer.
\<close>

fun budgets :: "effect list \<Rightarrow> nat list" where
  "budgets [] = []"
| "budgets (Spawn c as opts # es) = timeout opts # budgets es"
| "budgets (NewVM opts # es) = vm_timeout opts # budgets es"
| "budgets (SetTimeout RejectPromiseTimeout n # es) = n # budgets es"
| "budgets (x # es) = budgets es"

text \<open>
  Every removal of a temp directory the module starts, with its delay: an
  \<^verbatim>\<open>fs.rmdir\<close> called at once has delay 0.
\<close>

fun destructions :: "effect list \<Rightarrow> (nat \<times> string) list" where
  "destructions [] = []"
| "destructions (Rmdir d # es) = (0, d) # destructions es"
| "destructions (SetTimeout (CleanupTempDir d) n # es) = (n, d) # destructions es"
| "destructions (x # es) = destructions es"

text \<open>The response object of a handler that answered.\<close>

definition answer :: "response outcome \<times> effect list \<Rightarrow> response option" where
  "answer res = (case fst res of Returns resp \<Rightarrow> Some resp | other \<Rightarrow> None)"

text \<open>The handler answered with \<^verbatim>\<open>success: false\<close> and the given \<^verbatim>\<open>error\<close>.\<close>

definition answers_failure :: "response outcome \<times> effect list \<Rightarrow> string \<Rightarrow> bool" where
  "answers_failure res msg =
     (case answer res of None \<Rightarrow> False | Some resp \<Rightarrow> \<not> success resp \<and> error resp = Some msg)"

text \<open>
  The invocations of a language's toolchain as the table and the file name alone
  determine them: the compiler when the entry has \<^verbatim>\<open>compile\<close>, then the runner.
\<close>

definition toolchain :: "string \<Rightarrow> string option \<Rightarrow> (string \<times> string list) list" where
  "toolchain lang fname =
     (case map_of LANGUAGE_CONFIGS lang of
        None \<Rightarrow> []
      | Some config \<Rightarrow>
          (case compiler config of
             Some cc \<Rightarrow>
               if truthy (compile config)
               then [(cc, or_empty (compilerArgs config) @ [file_name fname config])]
               else []
           | None \<Rightarrow> [])
          @ [(runner config,
              or_empty (args config)
              @ (if truthy (compile config) then [] else [file_name fname config]))])"



text \<open>A script that makes the given console calls and then goes on as \<open>k\<close>.\<close>

fun logging :: "(console_method \<times> js_value list) list \<Rightarrow> 'a script \<Rightarrow> 'a script" where
  "logging [] k = k"
| "logging ((c, as) # cs) k = Console c as (logging cs k)"

subsection \<open>The execution service of the front end\<close>

text \<open>
  Executions are submitted through \<^verbatim>\<open>JavaScriptExecutionService.executeCode\<close>
  (\<^verbatim>\<open>frontend/src/platform/ai/AIService.js\<close>), which posts them to the handler above
  or runs them in the browser. The service counts its running executions and keeps
  the others in a queue. Of the object's fields the three that \<^verbatim>\<open>executeCode\<close>
  uses for that are kept; \<open>constructed\<close> is the object as the constructor leaves
  it. A queue entry holds the arguments of the call.
\<close>

record submission =
  sub_code :: string
  sub_language :: string
  sub_input :: string
  sub_options :: string

record service =
  executionQueue :: "submission list"
  maxConcurrentExecutions :: int
  currentExecutions :: int

definition constructed :: service where
  "constructed = \<lparr>executionQueue = [], maxConcurrentExecutions = 3, currentExecutions = 0\<rparr>"

datatype emitted =
    ExecutionStarted submission
  | ExecutionCompleted
  | ExecutionError string

text \<open>\<^verbatim>\<open>language.toLowerCase()\<close>, and the labels of the \<^verbatim>\<open>switch\<close>.\<close>

definition lower_char :: "char \<Rightarrow> char" where
  "lower_char c =
     (let n = (of_char c :: nat) in
      if (65 \<le> n \<and> n \<le> 90) \<or> (192 \<le> n \<and> n \<le> 222 \<and> n \<noteq> 215)
      then char_of (n + 32) else c)"

definition toLowerCase :: "string \<Rightarrow> string" where
  "toLowerCase s = map lower_char s"

definition has_case :: "string \<Rightarrow> bool" where
  "has_case lang =
     (toLowerCase lang \<in> set [''javascript'', ''js'', ''typescript'', ''ts'', ''python'', ''py'',
                               ''html'', ''css''])"

text \<open>
  \<^verbatim>\<open>executeCode\<close> is an async function: a call runs until its first \<^verbatim>\<open>await\<close>.
  With the limit reached it pushes the call on the queue and returns a promise that
  stays pending. Otherwise it counts the execution in, emits \<^verbatim>\<open>executionStarted\<close>
  and awaits the language's executor; a language for which the \<^verbatim>\<open>switch\<close> has no
  case throws at once, so that the \<^verbatim>\<open>catch\<close> and \<^verbatim>\<open>finally\<close> blocks run inside
  the same call. The \<^verbatim>\<open>finally\<close> block counts the execution out and calls
  \<^verbatim>\<open>executeCode\<close> for the entry it shifts from the queue. The history and the
  results are left out; the emitted events are the second component.
\<close>

function executeCode :: "service \<Rightarrow> submission \<Rightarrow> service \<times> emitted list"
  and finally_block :: "service \<Rightarrow> service \<times> emitted list"
where
  "executeCode s x =
     (if currentExecutions s \<ge> maxConcurrentExecutions s then
        (s\<lparr>executionQueue := executionQueue s @ [x]\<rparr>, [])
      else
        (let s1 = s\<lparr>currentExecutions := currentExecutions s + 1\<rparr> in
         if has_case (sub_language x) then (s1, [ExecutionStarted x])
         else
           (let (s2, effs) = finally_block s1
            in (s2, [ExecutionStarted x,
                     ExecutionError (''Unsupported language: '' @ sub_language x)] @ effs))))"
| "finally_block s =
     (let s1 = s\<lparr>currentExecutions := currentExecutions s - 1\<rparr> in
      case executionQueue s1 of
        [] \<Rightarrow> (s1, [])
      | nextExecution # rest \<Rightarrow> executeCode (s1\<lparr>executionQueue := rest\<rparr>) nextExecution)"
  by pat_completeness auto
termination
  by (relation "measure (\<lambda>a. case a of
         Inl (s, x) \<Rightarrow> 2 * length (executionQueue s) + 2
       | Inr s \<Rightarrow> 2 * length (executionQueue s) + 1)") auto

declare executeCode.simps [simp del] finally_block.simps [simp del]

text \<open>
  What happens to the service: \<^verbatim>\<open>executeCode\<close> is called, or the promise that one
  running execution awaits settles (\<open>None\<close>: it resolves; otherwise the message it
  rejects with) and that execution goes on through its \<^verbatim>\<open>finally\<close> block. Which of
  the running executions it is makes no difference to the three fields. With no
  execution running nothing can settle.
\<close>

datatype service_event = Call submission | Settled "string option"

fun service_step :: "service \<times> emitted list \<Rightarrow> service_event \<Rightarrow> service \<times> emitted list" where
  "service_step (s, tr) (Call x) = (let (s', effs) = executeCode s x in (s', tr @ effs))"
| "service_step (s, tr) (Settled res) =
     (if currentExecutions s \<le> 0 then (s, tr)
      else
        (let (s', effs) = finally_block s
         in (s', tr @ [case res of None \<Rightarrow> ExecutionCompleted | Some m \<Rightarrow> ExecutionError m]
                 @ effs)))"

definition service_run :: "service \<Rightarrow> service_event list \<Rightarrow> service \<times> emitted list" where
  "service_run s evs = foldl service_step (s, []) evs"

text \<open>
  The submissions that were started, the number of executions that ended, and the
  submissions that were made, each in the order of the events.
\<close>

fun started_of :: "emitted list \<Rightarrow> submission list" where
  "started_of [] = []"
| "started_of (ExecutionStarted x # tr) = x # started_of tr"
| "started_of (y # tr) = started_of tr"

fun ended_of :: "emitted list \<Rightarrow> nat" where
  "ended_of [] = 0"
| "ended_of (ExecutionStarted x # tr) = ended_of tr"
| "ended_of (y # tr) = Suc (ended_of tr)"

fun calls_of :: "service_event list \<Rightarrow> submission list" where
  "calls_of [] = []"
| "calls_of (Call x # evs) = x # calls_of evs"
| "calls_of (y # evs) = calls_of evs"

text \<open>
  What a call of \<^verbatim>\<open>executeCode\<close> or a run of the \<^verbatim>\<open>finally\<close> block leaves, for the
  count \<open>c\<close> of running executions before the block and the entries \<open>waiting\<close>:
  the entries started and the entries left are the waiting ones, in order; the
  count is \<open>c\<close> or one less, and is \<open>c\<close> when an entry is left. And what holds
  of the service after any events, for the limit \<open>N\<close>.
\<close>

definition admitted ::
  "service \<Rightarrow> submission list \<Rightarrow> int \<Rightarrow> service \<times> emitted list \<Rightarrow> bool"
where
  "admitted s waiting c res =
     (case res of (s', effs) \<Rightarrow>
        maxConcurrentExecutions s' = maxConcurrentExecutions s
        \<and> c - 1 \<le> currentExecutions s' \<and> currentExecutions s' \<le> c
        \<and> (executionQueue s' \<noteq> [] \<longrightarrow> currentExecutions s' = c)
        \<and> started_of effs @ executionQueue s' = waiting
        \<and> int (length (started_of effs)) = currentExecutions s' - (c - 1) + int (ended_of effs))"

definition in_order :: "int \<Rightarrow> service_event list \<Rightarrow> service \<times> emitted list \<Rightarrow> bool" where
  "in_order N evs res =
     (case res of (s, tr) \<Rightarrow>
        maxConcurrentExecutions s = N
        \<and> 0 \<le> currentExecutions s \<and> currentExecutions s \<le> N
        \<and> (executionQueue s \<noteq> [] \<longrightarrow> currentExecutions s = N)
        \<and> started_of tr @ executionQueue s = calls_of evs
        \<and> int (length (started_of tr)) = currentExecutions s + int (ended_of tr))"

text \<open>A sample submission.\<close>

definition sample_call :: "string \<Rightarrow> submission" where
  "sample_call text =
     \<lparr>sub_code = text, sub_language = ''python'', sub_input = '''', sub_options = ''{}''\<rparr>"


subsection \<open>Sample inputs\<close>

definition sample_request :: "string \<Rightarrow> string \<Rightarrow> request" where
  "sample_request lang text =
     \<lparr>code = text, language = lang, input = None, projectId = None, filename = None,
      timeoutMs = None, maxOutputBytes = None\<rparr>"

definition sample_env :: env where
  "sample_env =
     \<lparr>uuid = ''3f2a'', uuid2 = ''9c41'', temp_root = ''/srv/temp'',
      now_start = 1000, now_end = 1250,
      mkdir_result = None, writeFile_result = None, rmdir_result = None,
      compile_events = [Close (Some 0)],
      run_events = [StdoutData ''hello'', StdoutData ''world'', Close (Some 0)],
      vm_run = (\<lambda>c i. Finish (Value JUndefined))\<rparr>"

definition cpp_config :: language_config where
  "cpp_config =
     (compiled ''.cpp'' ''./program'' ''g++'')\<lparr>compilerArgs := Some [''-o'', ''program'']\<rparr>"

definition python_config :: language_config where
  "python_config =
     (interpreted ''.py'' ''python'')\<lparr>args := Some [''-u''], sandbox := Some False\<rparr>"

definition javascript_config :: language_config where
  "javascript_config =
     (interpreted ''.js'' ''node'')
       \<lparr>sandbox := Some True, memoryLimit := Some (128 * 1024 * 1024)\<rparr>"


text \<open>The sample environment with a given behaviour of the submitted script.\<close>

definition script_env :: "completion script \<Rightarrow> env" where
  "script_env s = sample_env\<lparr>vm_run := (\<lambda>c i. s)\<rparr>"

section \<open>Properties\<close>

subsection \<open>Child processes and the language table\<close>

lemma stream_error_exit_status:
  "stream_error evs = Some m \<Longrightarrow> exit_status evs = Some (StreamFailure m)"
  by (induction evs rule: exit_status.induct) simp_all

lemma listen_exit_status:
  "stream_error evs = None \<Longrightarrow>
   listen pre out err evs =
     (case exit_status evs of
        None \<Rightarrow> Hangs
      | Some (ExitCode c) \<Rightarrow>
          Returns \<lparr>p_success = (c = Some 0), p_output = out @ stdout_of evs,
                   p_error = (if c \<noteq> Some 0 then err @ stderr_of evs else '''')\<rparr>
      | Some (SpawnError m) \<Rightarrow>
          Returns \<lparr>p_success = False, p_output = '''', p_error = pre @ m\<rparr>
      | Some (StreamFailure m) \<Rightarrow> Uncaught m)"
  by (induction pre out err evs rule: listen.induct) (simp_all split: option.splits settled.splits)

lemma awaited_exit_status:
  "awaited pre evs =
     (case exit_status evs of
        None \<Rightarrow> Hangs
      | Some (ExitCode c) \<Rightarrow>
          Returns \<lparr>p_success = (c = Some 0), p_output = stdout_of evs,
                   p_error = (if c \<noteq> Some 0 then stderr_of evs else '''')\<rparr>
      | Some (SpawnError m) \<Rightarrow>
          Returns \<lparr>p_success = False, p_output = '''', p_error = pre @ m\<rparr>
      | Some (StreamFailure m) \<Rightarrow> Uncaught m)"
proof (cases "stream_error evs")
  case None
  then show ?thesis
    using listen_exit_status [OF None, of pre "''''" "''''"]
    by (simp add: awaited_def split: option.splits settled.splits)
next
  case (Some m)
  then show ?thesis by (simp add: awaited_def stream_error_exit_status)
qed

lemma runCode_result:
  "fst (runCode evs d f cfg i) =
     (case exit_status evs of
        None \<Rightarrow> Hangs
      | Some (ExitCode c) \<Rightarrow>
          Returns \<lparr>p_success = (c = Some 0), p_output = stdout_of evs,
                   p_error = (if c \<noteq> Some 0 then stderr_of evs else '''')\<rparr>
      | Some (SpawnError m) \<Rightarrow>
          Returns \<lparr>p_success = False, p_output = '''', p_error = ''Execution failed: '' @ m\<rparr>
      | Some (StreamFailure m) \<Rightarrow> Uncaught m)"
  by (simp add: runCode_def Let_def awaited_exit_status)

lemma compileCode_result:
  "compiler cfg = Some cc \<Longrightarrow>
   fst (compileCode evs d f cfg) =
     (case exit_status evs of
        None \<Rightarrow> Hangs
      | Some (ExitCode c) \<Rightarrow>
          Returns \<lparr>p_success = (c = Some 0), p_output = stdout_of evs,
                   p_error = (if c \<noteq> Some 0 then stderr_of evs else '''')\<rparr>
      | Some (SpawnError m) \<Rightarrow>
          Returns \<lparr>p_success = False, p_output = '''', p_error = ''Compilation failed: '' @ m\<rparr>
      | Some (StreamFailure m) \<Rightarrow> Uncaught m)"
  by (simp add: compileCode_def Let_def awaited_exit_status)

lemma runCode_effects:
  "snd (runCode evs d f cfg i) =
     [ConsoleLog (''[Execution] '' @ runner cfg @ '' '' @ join '' ''
        (or_empty (args cfg) @ (if truthy (compile cfg) then [] else [f]))),
      Spawn (runner cfg) (or_empty (args cfg) @ (if truthy (compile cfg) then [] else [f]))
        \<lparr>cwd = d, timeout = EXECUTION_TIMEOUT\<rparr>]
     @ (if i = '''' then [] else [StdinWrite i, StdinEnd])"
  by (simp add: runCode_def Let_def)

lemma compileCode_effects:
  "compiler cfg = Some cc \<Longrightarrow>
   snd (compileCode evs d f cfg) =
     [ConsoleLog (''[Compilation] '' @ cc @ '' '' @ join '' '' (or_empty (compilerArgs cfg) @ [f])),
      Spawn cc (or_empty (compilerArgs cfg) @ [f]) \<lparr>cwd = d, timeout = EXECUTION_TIMEOUT\<rparr>]"
  by (simp add: compileCode_def Let_def)

lemma table_cases:
  "map_of LANGUAGE_CONFIGS l = Some cfg \<Longrightarrow>
     (l = ''javascript'' \<and> cfg = javascript_config)
   \<or> (l \<noteq> ''javascript'' \<and> \<not> truthy (sandbox cfg)
       \<and> (truthy (compile cfg) \<longrightarrow> compiler cfg \<noteq> None))"
  by (auto simp: LANGUAGE_CONFIGS_def javascript_config_def interpreted_def compiled_def truthy_def
           split: if_splits)

lemma valid_lookup:
  "validationResult r = [] \<Longrightarrow> code r \<noteq> '''' \<and> (\<exists>cfg. map_of LANGUAGE_CONFIGS (language r) = Some cfg)"
  by (auto simp: validationResult_def map_of_eq_None_iff split: if_splits dest!: weak_map_of_SomeI) 

lemma handler_catch_simps [simp]:
  "handler_catch e (Returns resp, effs) = (Returns resp, effs)"
  "handler_catch e (Hangs, effs) = (Hangs, effs)"
  "handler_catch e (Uncaught m, effs) = (Uncaught m, effs)"
  "handler_catch e (Throws m, effs) =
     (Returns (base_response\<lparr>status := 500, success := False, error := Some m,
        executionId := Some (uuid2 e)\<rparr>),
      effs @ [ConsoleError (''Execution error: '' @ m)])"
  by (simp_all add: handler_catch_def)

lemma run_step_no_throw: "fst (run_step e d f cfg i x l out effs) \<noteq> Throws m"
  using runCode_result [of "run_events e" d f cfg i]
  by (auto simp: run_step_def external_catch_def split: prod.splits outcome.splits option.splits settled.splits)

lemma external_no_throw: "fst (executeExternalProcess e c l cfg i x p f) \<noteq> Throws m"
  by (auto simp: executeExternalProcess_def Let_def external_catch_def run_step_no_throw
           split: option.splits prod.splits outcome.splits)

lemma handler_invalid:
  "validationResult r \<noteq> [] \<Longrightarrow>
   handler r e =
     (Returns (base_response\<lparr>status := 400, success := False, errors := validationResult r\<rparr>), [])"
  by (simp add: handler_def handler_try_def Let_def)

lemma handler_javascript:
  assumes "validationResult r = []" "language r = ''javascript''"
  shows "handler r e =
           handler_catch e
             (fst (executeJavaScriptSandbox e (code r) (input_or_default r) (uuid e)),
              starting (uuid e) (language r)
              # snd (executeJavaScriptSandbox e (code r) (input_or_default r) (uuid e)))"
proof -
  obtain cfg where cfg: "map_of LANGUAGE_CONFIGS (language r) = Some cfg"
    using valid_lookup [OF assms(1)] by blast
  with table_cases [OF cfg] assms(2) have "cfg = javascript_config" by auto
  then have sb: "truthy (sandbox cfg)" by (simp add: javascript_config_def interpreted_def truthy_def)
  with assms cfg show ?thesis
    by (simp add: handler_def handler_try_def Let_def split_beta)
qed

lemma handler_external:
  assumes "validationResult r = []" "map_of LANGUAGE_CONFIGS (language r) = Some cfg"
      "language r \<noteq> ''javascript''"
  shows "handler r e =
           (fst (executeExternalProcess e (code r) (language r) cfg (input_or_default r) (uuid e)
                   (projectId r) (filename r)),
            starting (uuid e) (language r)
            # snd (executeExternalProcess e (code r) (language r) cfg
                   (input_or_default r) (uuid e) (projectId r) (filename r)))"
proof -
  obtain res effs where x: "executeExternalProcess e (code r) (language r) cfg (input_or_default r) (uuid e)
                   (projectId r) (filename r) = (res, effs)"
    by (metis prod.collapse)
  have "\<forall>m. res \<noteq> Throws m"
    using external_no_throw [of e "code r" "language r" cfg "input_or_default r" "uuid e" "projectId r" "filename r"] x
    by simp
  with assms x show ?thesis
    by (cases res) (simp_all add: handler_def handler_try_def Let_def)
qed


subsection \<open>Exit code and the \<^verbatim>\<open>error\<close> field\<close>

text \<open>
  Claim C10. When a compile or run step ends with a \<^verbatim>\<open>close\<close> event, the \<^verbatim>\<open>error\<close>
  field of the object the step resolves with is the empty string if the exit code
  is 0, whatever the process wrote to stderr, and is everything the process wrote
  to stderr if the exit code is not 0 (or is \<^verbatim>\<open>null\<close>).
\<close>

theorem exit_zero_hides_stderr:
  assumes "exit_status evs = Some (ExitCode c)"
  shows "(\<exists>r. fst (runCode evs d f cfg i) = Returns r
              \<and> p_error r = (if c = Some 0 then '''' else stderr_of evs))
       \<and> (compiler cfg \<noteq> None \<longrightarrow>
            (\<exists>r. fst (compileCode evs d f cfg) = Returns r
              \<and> p_error r = (if c = Some 0 then '''' else stderr_of evs)))"
  using assms by (auto simp: runCode_result compileCode_result)

theorem exit_zero_hides_stderr_witness:
  "exit_status [StderrData ''warning: unused'', Close (Some 0)] = Some (ExitCode (Some 0))
   \<and> stderr_of [StderrData ''warning: unused'', Close (Some 0)] = ''warning: unused''
   \<and> (\<exists>r. fst (runCode [StderrData ''warning: unused'', Close (Some 0)]
                  ''/srv/temp/3f2a'' ''code.cpp'' cpp_config '''') = Returns r
          \<and> p_error r = '''')
   \<and> (\<exists>r. fst (compileCode [StderrData ''warning: unused'', Close (Some 0)]
                  ''/srv/temp/3f2a'' ''code.cpp'' cpp_config) = Returns r
          \<and> p_error r = '''')"
  using exit_zero_hides_stderr
          [of "[StderrData ''warning: unused'', Close (Some 0)]" "Some 0"
              "''/srv/temp/3f2a''" "''code.cpp''" cpp_config "''''"]
  by (simp add: cpp_config_def compiled_def interpreted_def)


subsection \<open>Evaluating the handler\<close>

lemma lookup_python: "map_of LANGUAGE_CONFIGS ''python'' = Some python_config"
  by (simp add: LANGUAGE_CONFIGS_def python_config_def)

lemma lookup_cpp: "map_of LANGUAGE_CONFIGS ''cpp'' = Some cpp_config"
  by (simp add: LANGUAGE_CONFIGS_def cpp_config_def)

lemma lookup_javascript: "map_of LANGUAGE_CONFIGS ''javascript'' = Some javascript_config"
  by (simp add: LANGUAGE_CONFIGS_def javascript_config_def)

lemma vm_run_script_env [simp]: "vm_run (script_env s) c i = s"
  by (simp add: script_env_def)

lemma valid_sample:
  "validationResult (sample_request l c) = []
     \<longleftrightarrow> c \<noteq> '''' \<and> l \<in> set (map fst LANGUAGE_CONFIGS)"
  by (auto simp: validationResult_def sample_request_def)

lemma validationResult_extras [simp]:
  "validationResult (r\<lparr>timeoutMs := t\<rparr>) = validationResult r"
  "validationResult (r\<lparr>maxOutputBytes := b\<rparr>) = validationResult r"
  by (simp_all add: validationResult_def)

lemma handler_ignores_timeoutMs: "handler (r\<lparr>timeoutMs := t\<rparr>) e = handler r e"
  by (cases "map_of LANGUAGE_CONFIGS (language r)")
     (simp_all add: handler_def handler_try_def validationResult_def input_or_default_def Let_def)

lemma handler_ignores_maxOutputBytes: "handler (r\<lparr>maxOutputBytes := b\<rparr>) e = handler r e"
  by (cases "map_of LANGUAGE_CONFIGS (language r)")
     (simp_all add: handler_def handler_try_def validationResult_def input_or_default_def Let_def)

lemma run_step_closed:
  assumes "exit_status (run_events e) = Some (ExitCode c)"
  shows "run_step e d f cfg i x l out effs =
     (Returns (base_response\<lparr>success := (c = Some 0), executionId := Some x,
        res_output := Some (trim (out @ stdout_of (run_events e))),
        error := Some (trim (if c \<noteq> Some 0 then stderr_of (run_events e) else '''')),
        executionTime := Some (now_end e - now_start e),
        res_language := Some l, stage := Some ''execution''\<rparr>),
      effs @ snd (runCode (run_events e) d f cfg i) @ [SetTimeout (CleanupTempDir d) 5000])"
  using assms runCode_result [of "run_events e" d f cfg i]
  by (simp add: run_step_def split_beta)

lemma run_step_spawn_error:
  assumes "exit_status (run_events e) = Some (SpawnError m)"
  shows "run_step e d f cfg i x l out effs =
     (Returns (base_response\<lparr>success := False, executionId := Some x,
        res_output := Some (trim out),
        error := Some (trim (''Execution failed: '' @ m)),
        executionTime := Some (now_end e - now_start e),
        res_language := Some l, stage := Some ''execution''\<rparr>),
      effs @ snd (runCode (run_events e) d f cfg i) @ [SetTimeout (CleanupTempDir d) 5000])"
  using assms runCode_result [of "run_events e" d f cfg i]
  by (simp add: run_step_def split_beta)

lemma run_step_hangs:
  assumes "exit_status (run_events e) = None"
  shows "run_step e d f cfg i x l out effs = (Hangs, effs @ snd (runCode (run_events e) d f cfg i))"
  using assms runCode_result [of "run_events e" d f cfg i]
  by (simp add: run_step_def split_beta)

lemma run_step_uncaught:
  assumes "exit_status (run_events e) = Some (StreamFailure m)"
  shows "run_step e d f cfg i x l out effs =
           (Uncaught m, effs @ snd (runCode (run_events e) d f cfg i))"
  using assms runCode_result [of "run_events e" d f cfg i]
  by (simp add: run_step_def split_beta)

subsection \<open>The captured output\<close>

text \<open>
  Claim C5, as amended. The module applies no cap to the captured output. When a
  compile or run step ends with a \<^verbatim>\<open>close\<close> event, the \<^verbatim>\<open>output\<close> it resolves
  with is everything the process wrote to stdout, and for an exit code other than 0
  its \<^verbatim>\<open>error\<close> is everything the process wrote to stderr; a \<^verbatim>\<open>maxOutputBytes\<close>
  in the request changes nothing of what the handler does.
\<close>

theorem capture_keeps_everything:
  assumes "exit_status evs = Some (ExitCode c)"
  shows "(\<exists>r. fst (runCode evs d f cfg i) = Returns r \<and> p_output r = stdout_of evs
              \<and> (c \<noteq> Some 0 \<longrightarrow> p_error r = stderr_of evs))
       \<and> (compiler cfg \<noteq> None \<longrightarrow>
            (\<exists>r. fst (compileCode evs d f cfg) = Returns r \<and> p_output r = stdout_of evs
              \<and> (c \<noteq> Some 0 \<longrightarrow> p_error r = stderr_of evs)))
       \<and> handler (q\<lparr>maxOutputBytes := b\<rparr>) e = handler q e"
  using assms 
  by (auto simp: runCode_result compileCode_result handler_ignores_maxOutputBytes)

theorem capture_keeps_everything_witness:
  "exit_status [StdoutData ''hello'', StdoutData ''world'', Close (Some 0)]
     = Some (ExitCode (Some 0))
   \<and> (\<exists>r. fst (runCode [StdoutData ''hello'', StdoutData ''world'', Close (Some 0)]
                  ''/srv/temp/3f2a'' ''code.py'' python_config '''') = Returns r
          \<and> p_output r = ''helloworld'')
   \<and> handler ((sample_request ''python'' ''print(1)'')\<lparr>maxOutputBytes := Some 4\<rparr>) sample_env
       = handler (sample_request ''python'' ''print(1)'') sample_env"
  using capture_keeps_everything
          [where evs = "[StdoutData ''hello'', StdoutData ''world'', Close (Some 0)]"
             and c = "Some 0" and d = "''/srv/temp/3f2a''" and f = "''code.py''"
             and cfg = python_config and i = "''''"
             and q = "sample_request ''python'' ''print(1)''" and b = "Some 4"
             and e = sample_env]
  by simp

text \<open>
  The claim as stated fails: with \<^verbatim>\<open>maxOutputBytes\<close> 4, a process that writes
  \<^verbatim>\<open>hello\<close> and \<^verbatim>\<open>world\<close> gets all ten characters into the response.
\<close>

theorem capture_exceeds_cap:
  "maxOutputBytes ((sample_request ''python'' ''print(1)'')\<lparr>maxOutputBytes := Some 4\<rparr>) = Some 4
   \<and> map_option res_output
        (answer (handler ((sample_request ''python'' ''print(1)'')\<lparr>maxOutputBytes := Some 4\<rparr>)
                   sample_env)) = Some (Some ''helloworld'')
   \<and> \<not> length ''helloworld'' \<le> (4::nat)"
proof -
  let ?r = "(sample_request ''python'' ''print(1)'')\<lparr>maxOutputBytes := Some 4\<rparr>"
  have v: "validationResult ?r = []"
    by (simp add: valid_sample LANGUAGE_CONFIGS_def)
  have l: "map_of LANGUAGE_CONFIGS (language ?r) = Some python_config"
    by (simp add: sample_request_def lookup_python)
  have n: "language ?r \<noteq> ''javascript''" by (simp add: sample_request_def)
  have x: "exit_status (run_events sample_env) = Some (ExitCode (Some 0))"
    by (simp add: sample_env_def)
  have t: "trim ''helloworld'' = ''helloworld''"
    by (simp add: trim_def js_space_def)
  have s: "stdout_of (run_events sample_env) = ''helloworld''" by (simp add: sample_env_def)
  have c: "\<not> truthy (compile python_config)" by (simp add: python_config_def interpreted_def truthy_def)
  have fs: "mkdir_result sample_env = None" "writeFile_result sample_env = None" by (simp_all add: sample_env_def)
  show ?thesis
    unfolding handler_external [OF v l n]
    by (simp add: answer_def executeExternalProcess_def run_step_closed [OF x] c s t fs Let_def sample_request_def)
qed


subsection \<open>The paths of \<^verbatim>\<open>executeExternalProcess\<close>\<close>

lemma spawns_append: "spawns (xs @ ys) = spawns xs @ spawns ys"
  by (induction xs rule: spawns.induct) simp_all

lemma budgets_append: "budgets (xs @ ys) = budgets xs @ budgets ys"
  by (induction xs rule: budgets.induct) simp_all

lemma destructions_append: "destructions (xs @ ys) = destructions xs @ destructions ys"
  by (induction xs rule: destructions.induct) simp_all

lemma external_mkdir_fail:
  assumes "mkdir_result e = Some m"
  shows "executeExternalProcess e c l cfg i x p f =
           external_catch e (path_join (temp_root e) x) x l m [Mkdir (path_join (temp_root e) x)]"
  using assms by (simp add: executeExternalProcess_def Let_def)

lemma external_write_fail:
  assumes "mkdir_result e = None" "writeFile_result e = Some m"
  shows "executeExternalProcess e c l cfg i x p f =
           external_catch e (path_join (temp_root e) x) x l m
             [Mkdir (path_join (temp_root e) x),
              WriteFile (path_join (path_join (temp_root e) x) (file_name f cfg)) c]"
  using assms by (simp add: executeExternalProcess_def Let_def)

lemma external_interpreted:
  assumes "mkdir_result e = None" "writeFile_result e = None" "\<not> truthy (compile cfg)"
  shows "executeExternalProcess e c l cfg i x p f =
           run_step e (path_join (temp_root e) x) (file_name f cfg) cfg i x l ''''
             [Mkdir (path_join (temp_root e) x),
              WriteFile (path_join (path_join (temp_root e) x) (file_name f cfg)) c]"
  using assms by (simp add: executeExternalProcess_def Let_def)

lemma external_compile_ok:
  assumes "mkdir_result e = None" "writeFile_result e = None" "truthy (compile cfg)"
      "compiler cfg = Some cc" "exit_status (compile_events e) = Some (ExitCode (Some 0))"
  shows "executeExternalProcess e c l cfg i x p f =
           run_step e (path_join (temp_root e) x) (file_name f cfg) cfg i x l
             (stdout_of (compile_events e))
             ([Mkdir (path_join (temp_root e) x),
               WriteFile (path_join (path_join (temp_root e) x) (file_name f cfg)) c]
              @ snd (compileCode (compile_events e) (path_join (temp_root e) x)
                       (file_name f cfg) cfg))"
  using assms
    compileCode_result [OF assms(4), of "compile_events e" "path_join (temp_root e) x" "file_name f cfg"]
  by (simp add: executeExternalProcess_def Let_def split_beta)

lemma external_compile_failed:
  assumes "mkdir_result e = None" "writeFile_result e = None" "truthy (compile cfg)"
      "compiler cfg = Some cc" "exit_status (compile_events e) = Some s"
      "s \<noteq> ExitCode (Some 0)" "\<And>u. s \<noteq> StreamFailure u"
  shows "executeExternalProcess e c l cfg i x p f =
           (Returns (base_response\<lparr>success := False, executionId := Some x,
              res_output := Some '''',
              error := Some (case s of ExitCode k \<Rightarrow> stderr_of (compile_events e)
                             | SpawnError m \<Rightarrow> ''Compilation failed: '' @ m
                             | StreamFailure u \<Rightarrow> u),
              executionTime := Some (now_end e - now_start e),
              res_language := Some l, stage := Some ''compilation''\<rparr>),
            [Mkdir (path_join (temp_root e) x),
             WriteFile (path_join (path_join (temp_root e) x) (file_name f cfg)) c]
            @ snd (compileCode (compile_events e) (path_join (temp_root e) x)
                     (file_name f cfg) cfg))"
proof -
  have "\<forall>u. s \<noteq> StreamFailure u" using assms(7) by blast
  with assms(1-6)
    compileCode_result [OF assms(4), of "compile_events e" "path_join (temp_root e) x" "file_name f cfg"]
  show ?thesis
    by (cases s) (simp_all add: executeExternalProcess_def Let_def split_beta)
qed

lemma external_compile_hangs:
  assumes "mkdir_result e = None" "writeFile_result e = None" "truthy (compile cfg)"
      "compiler cfg = Some cc" "exit_status (compile_events e) = None"
  shows "executeExternalProcess e c l cfg i x p f =
           (Hangs,
            [Mkdir (path_join (temp_root e) x),
             WriteFile (path_join (path_join (temp_root e) x) (file_name f cfg)) c]
            @ snd (compileCode (compile_events e) (path_join (temp_root e) x)
                     (file_name f cfg) cfg))"
  using assms
    compileCode_result [OF assms(4), of "compile_events e" "path_join (temp_root e) x" "file_name f cfg"]
  by (simp add: executeExternalProcess_def Let_def split_beta)

lemma external_compile_uncaught:
  assumes "mkdir_result e = None" "writeFile_result e = None" "truthy (compile cfg)"
      "compiler cfg = Some cc" "exit_status (compile_events e) = Some (StreamFailure m)"
  shows "executeExternalProcess e c l cfg i x p f =
           (Uncaught m,
            [Mkdir (path_join (temp_root e) x),
             WriteFile (path_join (path_join (temp_root e) x) (file_name f cfg)) c]
            @ snd (compileCode (compile_events e) (path_join (temp_root e) x)
                     (file_name f cfg) cfg))"
  using assms
    compileCode_result [OF assms(4), of "compile_events e" "path_join (temp_root e) x" "file_name f cfg"]
  by (simp add: executeExternalProcess_def Let_def split_beta)

lemma run_step_effects:
  "snd (run_step e d f cfg i x l out effs) =
     effs @ snd (runCode (run_events e) d f cfg i)
     @ (case exit_status (run_events e) of
          Some (ExitCode k) \<Rightarrow> [SetTimeout (CleanupTempDir d) 5000]
        | Some (SpawnError m) \<Rightarrow> [SetTimeout (CleanupTempDir d) 5000]
        | other \<Rightarrow> [])"
proof (cases "exit_status (run_events e)")
  case None
  then show ?thesis by (simp add: run_step_hangs)
next
  case (Some s)
  then show ?thesis
    by (cases s) (simp_all add: run_step_closed run_step_spawn_error run_step_uncaught)
qed

lemma budgets_run_step:
  "budgets (snd (run_step e d f cfg i x l out effs)) = budgets effs @ [EXECUTION_TIMEOUT]"
  by (simp add: run_step_effects budgets_append runCode_effects
      split: option.splits settled.splits)

lemma spawns_run_step:
  "spawns (snd (run_step e d f cfg i x l out effs)) =
     spawns effs @ [(runner cfg, or_empty (args cfg) @ (if truthy (compile cfg) then [] else [f]))]"
  by (simp add: run_step_effects spawns_append runCode_effects
      split: option.splits settled.splits)

lemma destructions_run_step:
  "destructions (snd (run_step e d f cfg i x l out effs)) =
     destructions effs
     @ (case exit_status (run_events e) of
          Some (ExitCode k) \<Rightarrow> [(5000, d)]
        | Some (SpawnError m) \<Rightarrow> [(5000, d)]
        | other \<Rightarrow> [])"
  by (simp add: run_step_effects destructions_append runCode_effects
      split: option.splits settled.splits)

lemma external_no_compiler:
  assumes "mkdir_result e = None" "writeFile_result e = None" "truthy (compile cfg)"
      "compiler cfg = None"
  shows "executeExternalProcess e c l cfg i x p f =
           external_catch e (path_join (temp_root e) x) x l spawn_type_error
             ([Mkdir (path_join (temp_root e) x),
               WriteFile (path_join (path_join (temp_root e) x) (file_name f cfg)) c]
              @ snd (compileCode (compile_events e) (path_join (temp_root e) x)
                       (file_name f cfg) cfg))"
  using assms by (simp add: executeExternalProcess_def Let_def compileCode_def)

lemma compileCode_effects_no_compiler:
  "compiler cfg = None \<Longrightarrow>
   snd (compileCode evs d f cfg) =
     [ConsoleLog (''[Compilation] undefined '' @ join '' '' (or_empty (compilerArgs cfg) @ [f]))]"
  by (simp add: compileCode_def Let_def)

lemma external_cases [case_names MkdirFails WriteFails Interpreted NoCompiler CompileHangs
    CompileUncaught CompileFails CompileOk]:
  obtains m where "mkdir_result e = Some m"
  | m where "mkdir_result e = None" "writeFile_result e = Some m"
  | "mkdir_result e = None" "writeFile_result e = None" "\<not> truthy (compile cfg)"
  | "mkdir_result e = None" "writeFile_result e = None" "truthy (compile cfg)"
      "compiler cfg = None"
  | cc where "mkdir_result e = None" "writeFile_result e = None" "truthy (compile cfg)"
      "compiler cfg = Some cc" "exit_status (compile_events e) = None"
  | cc m where "mkdir_result e = None" "writeFile_result e = None" "truthy (compile cfg)"
      "compiler cfg = Some cc" "exit_status (compile_events e) = Some (StreamFailure m)"
  | cc s where "mkdir_result e = None" "writeFile_result e = None" "truthy (compile cfg)"
      "compiler cfg = Some cc" "exit_status (compile_events e) = Some s"
      "s \<noteq> ExitCode (Some 0)" "\<And>u. s \<noteq> StreamFailure u"
  | cc where "mkdir_result e = None" "writeFile_result e = None" "truthy (compile cfg)"
      "compiler cfg = Some cc" "exit_status (compile_events e) = Some (ExitCode (Some 0))"
proof (cases "mkdir_result e")
  case (Some m)
  then show ?thesis using that(1) by blast
next
  case mk: None
  show ?thesis
  proof (cases "writeFile_result e")
    case (Some m)
    then show ?thesis using that(2) mk by blast
  next
    case wr: None
    show ?thesis
    proof (cases "truthy (compile cfg)")
      case False
      then show ?thesis using that(3) mk wr by blast
    next
      case tr: True
      show ?thesis
      proof (cases "compiler cfg")
        case None
        then show ?thesis using that(4) mk wr tr by blast
      next
        case cc: (Some cc)
        show ?thesis
        proof (cases "exit_status (compile_events e)")
          case None
          then show ?thesis using that(5) mk wr tr cc by blast
        next
          case (Some s)
          show ?thesis
          proof (cases s)
            case (ExitCode k)
            show ?thesis
            proof (cases "k = Some 0")
              case True
              then show ?thesis using that(8) mk wr tr cc Some ExitCode by blast
            next
              case False
              then have "s \<noteq> ExitCode (Some 0)" "\<And>u. s \<noteq> StreamFailure u"
                using ExitCode by simp_all
              then show ?thesis using that(7) [OF mk wr tr cc Some] by blast
            qed
          next
            case (SpawnError m)
            then have "s \<noteq> ExitCode (Some 0)" "\<And>u. s \<noteq> StreamFailure u"
              by simp_all
            then show ?thesis using that(7) [OF mk wr tr cc Some] by blast
          next
            case (StreamFailure m)
            then show ?thesis using that(6) mk wr tr cc Some by blast
          qed
        qed
      qed
    qed
  qed
qed

lemma external_catch_effects:
  "snd (external_catch e d x l m effs) = effs @ [Rmdir d]"
  by (simp add: external_catch_def split: option.splits)

lemma external_catch_result:
  "fst (external_catch e d x l m effs) =
     Returns (base_response\<lparr>success := False, executionId := Some x,
        res_output := Some '''', error := Some m,
        executionTime := Some (now_end e - now_start e), res_language := Some l\<rparr>)"
  by (simp add: external_catch_def)

lemma budgets_external:
  "list_all (\<lambda>t. t = EXECUTION_TIMEOUT)
     (budgets (snd (executeExternalProcess e c l cfg i x p f)))"
proof (cases rule: external_cases [where e = e and cfg = cfg])
  case (MkdirFails m)
  then show ?thesis by (simp add: external_mkdir_fail external_catch_effects)
next
  case (WriteFails m)
  then show ?thesis by (simp add: external_write_fail external_catch_effects)
next
  case Interpreted
  then show ?thesis by (simp add: external_interpreted budgets_run_step)
next
  case NoCompiler
  then show ?thesis
    by (simp add: external_no_compiler external_catch_effects compileCode_effects_no_compiler)
next
  case (CompileHangs cc)
  then show ?thesis by (simp add: external_compile_hangs compileCode_effects)
next
  case (CompileUncaught cc m)
  then show ?thesis by (simp add: external_compile_uncaught compileCode_effects)
next
  case (CompileFails cc s)
  then show ?thesis by (simp add: external_compile_failed compileCode_effects)
next
  case (CompileOk cc)
  then show ?thesis by (simp add: external_compile_ok budgets_run_step compileCode_effects)
qed

lemma sandbox_effects:
  "snd (executeJavaScriptSandbox e c i x) =
     NewVM sandbox_vm_options
     # (case fst (run_script (vm_run e c i) ('''', '''')) of
          Inr (Thenable t) \<Rightarrow> [SetTimeout RejectPromiseTimeout EXECUTION_TIMEOUT]
        | _ \<Rightarrow> [])"
  by (simp add: executeJavaScriptSandbox_def split: prod.splits sum.splits completion.splits)

lemma budgets_sandbox:
  "list_all (\<lambda>t. t = EXECUTION_TIMEOUT) (budgets (snd (executeJavaScriptSandbox e c i x)))"
  by (simp add: sandbox_effects sandbox_vm_options_def split: sum.splits completion.splits)

lemma budgets_handler_catch [simp]: "budgets (snd (handler_catch e p)) = budgets (snd p)"
  by (cases p; cases "fst p") (simp_all add: budgets_append)

lemma spawns_handler_catch [simp]: "spawns (snd (handler_catch e p)) = spawns (snd p)"
  by (cases p; cases "fst p") (simp_all add: spawns_append)

lemma destructions_handler_catch [simp]:
  "destructions (snd (handler_catch e p)) = destructions (snd p)"
  by (cases p; cases "fst p") (simp_all add: destructions_append)

lemma starting_budgets [simp]: "budgets (starting x l # effs) = budgets effs"
  by (simp add: starting_def)

subsection \<open>The time budget\<close>

text \<open>
  Claim C2, as amended. Every time budget the handler hands out (the \<^verbatim>\<open>timeout\<close>
  option of each \<^verbatim>\<open>spawn\<close>, the \<^verbatim>\<open>timeout\<close> option of the VM, the delay of the
  promise timer) is the constant \<^verbatim>\<open>EXECUTION_TIMEOUT\<close>, 30000 ms, for every request
  and every environment; a \<^verbatim>\<open>timeoutMs\<close> in the request changes nothing of what the
  handler does.
\<close>

theorem budget_is_the_constant:
  "list_all (\<lambda>t. t = EXECUTION_TIMEOUT) (budgets (snd (handler r e)))
   \<and> handler (r\<lparr>timeoutMs := t\<rparr>) e = handler r e"
proof -
  have "list_all (\<lambda>t. t = EXECUTION_TIMEOUT) (budgets (snd (handler r e)))"
  proof (cases "validationResult r = []")
    case False
    then show ?thesis by (simp add: handler_invalid)
  next
    case True
    then obtain cfg where cfg: "map_of LANGUAGE_CONFIGS (language r) = Some cfg"
      using valid_lookup by blast
    show ?thesis
    proof (cases "language r = ''javascript''")
      case js: True
      show ?thesis
        unfolding handler_javascript [OF True js] using budgets_sandbox by simp
    next
      case ext: False
      show ?thesis
        unfolding handler_external [OF True cfg ext] using budgets_external by simp
    qed
  qed
  then show ?thesis by (simp add: handler_ignores_timeoutMs)
qed

theorem budget_is_the_constant_witness:
  "list_all (\<lambda>t. t = EXECUTION_TIMEOUT)
     (budgets (snd (handler (sample_request ''python'' ''while True: pass'') sample_env)))
   \<and> handler ((sample_request ''python'' ''while True: pass'')\<lparr>timeoutMs := Some 2000\<rparr>)
         sample_env
       = handler (sample_request ''python'' ''while True: pass'') sample_env"
  by (rule budget_is_the_constant)

text \<open>
  The claim as stated fails: a request that carries \<^verbatim>\<open>timeoutMs\<close> 2000 has its
  process spawned with the budget 30000.
\<close>

theorem budget_ignores_request:
  "timeoutMs ((sample_request ''python'' ''while True: pass'')\<lparr>timeoutMs := Some 2000\<rparr>)
     = Some 2000
   \<and> budgets (snd (handler
         ((sample_request ''python'' ''while True: pass'')\<lparr>timeoutMs := Some 2000\<rparr>)
         (sample_env\<lparr>run_events := [Close None]\<rparr>))) = [30000]
   \<and> (30000::nat) \<noteq> 2000"
proof -
  let ?r = "sample_request ''python'' ''while True: pass''"
  let ?e = "sample_env\<lparr>run_events := [Close None]\<rparr>"
  have v: "validationResult ?r = []"
    by (simp add: valid_sample LANGUAGE_CONFIGS_def)
  have l: "map_of LANGUAGE_CONFIGS (language ?r) = Some python_config"
    by (simp add: sample_request_def lookup_python)
  have n: "language ?r \<noteq> ''javascript''" by (simp add: sample_request_def)
  have c: "\<not> truthy (compile python_config)"
    by (simp add: python_config_def interpreted_def truthy_def)
  have fs: "mkdir_result ?e = None" "writeFile_result ?e = None"
    by (simp_all add: sample_env_def)
  have "budgets (snd (handler ?r ?e)) = [30000]"
    unfolding handler_external [OF v l n]
    by (simp add: external_interpreted [OF fs c] budgets_run_step EXECUTION_TIMEOUT_def)
  then show ?thesis by (simp add: handler_ignores_timeoutMs)
qed



subsection \<open>The argument vectors\<close>

lemma spawns_external:
  "spawns (snd (executeExternalProcess e c l cfg i x p f)) =
     (if mkdir_result e \<noteq> None \<or> writeFile_result e \<noteq> None then []
      else if \<not> truthy (compile cfg) then
        [(runner cfg, or_empty (args cfg) @ [file_name f cfg])]
      else
        (case compiler cfg of
           None \<Rightarrow> []
         | Some cc \<Rightarrow>
             (cc, or_empty (compilerArgs cfg) @ [file_name f cfg])
             # (if exit_status (compile_events e) = Some (ExitCode (Some 0))
                then [(runner cfg, or_empty (args cfg))] else [])))"
proof (cases rule: external_cases [where e = e and cfg = cfg])
  case (MkdirFails m)
  then show ?thesis by (simp add: external_mkdir_fail external_catch_effects)
next
  case (WriteFails m)
  then show ?thesis by (simp add: external_write_fail external_catch_effects)
next
  case Interpreted
  then show ?thesis by (simp add: external_interpreted spawns_run_step)
next
  case NoCompiler
  then show ?thesis
    by (simp add: external_no_compiler external_catch_effects compileCode_effects_no_compiler)
next
  case (CompileHangs cc)
  then show ?thesis by (simp add: external_compile_hangs compileCode_effects)
next
  case (CompileUncaught cc m)
  then show ?thesis by (simp add: external_compile_uncaught compileCode_effects)
next
  case (CompileFails cc s)
  then show ?thesis by (simp add: external_compile_failed compileCode_effects)
next
  case (CompileOk cc)
  then show ?thesis by (simp add: external_compile_ok spawns_run_step compileCode_effects)
qed

lemma spawns_sandbox: "spawns (snd (executeJavaScriptSandbox e c i x)) = []"
  by (simp add: sandbox_effects split: sum.splits completion.splits)

lemma starting_spawns [simp]: "spawns (starting x l # effs) = spawns effs"
  by (simp add: starting_def)

lemma spawns_handler:
  "spawns (snd (handler r e)) =
     (if validationResult r \<noteq> [] \<or> language r = ''javascript'' then []
      else case map_of LANGUAGE_CONFIGS (language r) of
             None \<Rightarrow> []
           | Some cfg \<Rightarrow>
               spawns (snd (executeExternalProcess e [] [] cfg [] [] None (filename r))))"
proof (cases "validationResult r = []")
  case False
  then show ?thesis by (simp add: handler_invalid)
next
  case True
  then obtain cfg where cfg: "map_of LANGUAGE_CONFIGS (language r) = Some cfg"
    using valid_lookup by blast
  show ?thesis
  proof (cases "language r = ''javascript''")
    case js: True
    show ?thesis
      unfolding handler_javascript [OF True js] using js by (simp add: spawns_sandbox)
  next
    case ext: False
    show ?thesis
      unfolding handler_external [OF True cfg ext] using True ext cfg
      by (simp add: spawns_external)
  qed
qed

lemma spawns_prefix_toolchain:
  "prefix (spawns (snd (handler r e))) (toolchain (language r) (filename r))"
  by (auto simp: spawns_handler spawns_external toolchain_def split: option.splits)

text \<open>
  Claim C7. Two requests with the same \<^verbatim>\<open>language\<close> and \<^verbatim>\<open>filename\<close>, whatever
  their code and input, hand the same commands and argument vectors to \<^verbatim>\<open>spawn\<close>:
  in any two environments the calls of either are an initial part of the toolchain
  invocations that the language table and the file name alone determine (the
  compiler with its table arguments and the file name, then the runner with its
  table arguments and, for an interpreted language, the file name), and in the same
  environment the calls are equal. The arguments are a list; no command string is
  built from the code.
\<close>

theorem same_language_same_invocation:
  assumes "language r1 = language r2" "filename r1 = filename r2"
  shows "prefix (spawns (snd (handler r1 e1))) (toolchain (language r1) (filename r1))
       \<and> prefix (spawns (snd (handler r2 e2))) (toolchain (language r1) (filename r1))
       \<and> (code r1 \<noteq> '''' \<and> code r2 \<noteq> '''' \<longrightarrow>
            spawns (snd (handler r1 e)) = spawns (snd (handler r2 e)))"
proof -
  have "spawns (snd (handler r1 e)) = spawns (snd (handler r2 e))"
    if "code r1 \<noteq> ''''" "code r2 \<noteq> ''''"
  proof -
    have "validationResult r1 = [] \<longleftrightarrow> validationResult r2 = []"
      using that assms(1) by (simp add: validationResult_def)
    then show ?thesis
      unfolding spawns_handler assms by simp
  qed
  moreover have "prefix (spawns (snd (handler r2 e2))) (toolchain (language r1) (filename r1))"
    using spawns_prefix_toolchain [of r2 e2] assms by simp
  ultimately show ?thesis
    using spawns_prefix_toolchain [of r1 e1] by simp
qed

theorem same_language_same_invocation_witness:
  "language (sample_request ''cpp'' ''int main(){return 0;}'')
     = language (sample_request ''cpp'' ''int main(){return 1/0;}'')
   \<and> filename (sample_request ''cpp'' ''int main(){return 0;}'')
     = filename (sample_request ''cpp'' ''int main(){return 1/0;}'')
   \<and> toolchain ''cpp'' None
     = [(''g++'', [''-o'', ''program'', ''code.cpp'']), (''./program'', [])]
   \<and> spawns (snd (handler (sample_request ''cpp'' ''int main(){return 0;}'') sample_env))
     = spawns (snd (handler (sample_request ''cpp'' ''int main(){return 1/0;}'') sample_env))
   \<and> prefix (spawns (snd (handler (sample_request ''cpp'' ''int main(){return 0;}'')
                              sample_env)))
        [(''g++'', [''-o'', ''program'', ''code.cpp'']), (''./program'', [])]"
proof -
  have t: "toolchain ''cpp'' None
             = [(''g++'', [''-o'', ''program'', ''code.cpp'']), (''./program'', [])]"
    by (simp add: toolchain_def lookup_cpp cpp_config_def compiled_def interpreted_def
        truthy_def or_empty_def file_name_def)
  show ?thesis
    using same_language_same_invocation
            [where ?r1.0 = "sample_request ''cpp'' ''int main(){return 0;}''"
               and ?r2.0 = "sample_request ''cpp'' ''int main(){return 1/0;}''"
               and ?e1.0 = sample_env and ?e2.0 = sample_env and e = sample_env]
    by (simp add: t sample_request_def)
qed



subsection \<open>Removing the temp directory\<close>

lemma run_step_answered:
  assumes "fst (run_step e d f cfg i x l out effs) = Returns resp"
  shows "stage resp = Some ''execution''
       \<and> destructions (snd (run_step e d f cfg i x l out effs)) = destructions effs @ [(5000, d)]"
proof (cases "exit_status (run_events e)")
  case None
  with assms show ?thesis by (simp add: run_step_hangs)
next
  case (Some s)
  have "stage resp = Some ''execution''"
    using assms Some
    by (cases s) (auto simp: run_step_closed run_step_spawn_error run_step_uncaught)
  moreover have "destructions (snd (run_step e d f cfg i x l out effs))
                   = destructions effs @ [(5000, d)]"
    using assms Some by (cases s) (simp_all add: destructions_run_step run_step_uncaught)
  ultimately show ?thesis by simp
qed

lemma external_stage_destructions:
  assumes "fst (executeExternalProcess e c l cfg i x p f) = Returns resp"
  shows "(stage resp = Some ''execution'' \<longrightarrow>
            destructions (snd (executeExternalProcess e c l cfg i x p f))
              = [(5000, path_join (temp_root e) x)])
       \<and> (stage resp = None \<longrightarrow>
            destructions (snd (executeExternalProcess e c l cfg i x p f))
              = [(0, path_join (temp_root e) x)])"
proof (cases rule: external_cases [where e = e and cfg = cfg])
  case (MkdirFails m)
  with assms show ?thesis
    by (auto simp: external_mkdir_fail external_catch_effects external_catch_result base_response_def)
next
  case (WriteFails m)
  with assms show ?thesis
    by (auto simp: external_write_fail external_catch_effects external_catch_result base_response_def)
next
  case Interpreted
  with assms run_step_answered [of e _ _ cfg i x l _ _ resp] show ?thesis
    by (simp add: external_interpreted)
next
  case NoCompiler
  with assms show ?thesis
    by (auto simp: external_no_compiler external_catch_effects external_catch_result
        compileCode_effects_no_compiler base_response_def)
next
  case (CompileHangs cc)
  with assms show ?thesis by (simp add: external_compile_hangs)
next
  case (CompileUncaught cc m)
  with assms show ?thesis by (simp add: external_compile_uncaught)
next
  case (CompileFails cc s)
  with assms show ?thesis by (auto simp: external_compile_failed)
next
  case (CompileOk cc)
  with assms run_step_answered [of e _ _ cfg i x l _ _ resp] show ?thesis
    by (simp add: external_compile_ok compileCode_effects)
qed

lemma external_catch_ignores_rmdir_result:
  "external_catch (e\<lparr>rmdir_result := y\<rparr>) d x l m effs = external_catch e d x l m effs"
  by (simp add: external_catch_def split: option.splits)

lemma run_step_ignores_rmdir_result:
  "run_step (e\<lparr>rmdir_result := y\<rparr>) d f cfg i x l out effs = run_step e d f cfg i x l out effs"
  by (simp add: run_step_def external_catch_ignores_rmdir_result
      cong: prod.case_cong outcome.case_cong)

lemma external_ignores_rmdir_result:
  "executeExternalProcess (e\<lparr>rmdir_result := y\<rparr>) c l cfg i x p f
     = executeExternalProcess e c l cfg i x p f"
  by (simp add: executeExternalProcess_def Let_def run_step_ignores_rmdir_result
      external_catch_ignores_rmdir_result
      cong: option.case_cong prod.case_cong outcome.case_cong if_cong)

lemma sandbox_ignores_rmdir_result:
  "executeJavaScriptSandbox (e\<lparr>rmdir_result := y\<rparr>) c i x = executeJavaScriptSandbox e c i x"
  by (simp add: executeJavaScriptSandbox_def sandbox_success_def outer_catch_def rejected_def
      split: prod.splits sum.splits completion.splits settle.splits)

lemma handler_try_ignores_rmdir_result:
  "handler_try r (e\<lparr>rmdir_result := y\<rparr>) = handler_try r e"
  by (cases "map_of LANGUAGE_CONFIGS (language r)")
     (simp_all add: handler_try_def Let_def external_ignores_rmdir_result
        sandbox_ignores_rmdir_result)

lemma handler_ignores_rmdir_result: "handler r (e\<lparr>rmdir_result := y\<rparr>) = handler r e"
  by (simp add: handler_def handler_try_ignores_rmdir_result handler_catch_def
      cong: prod.case_cong outcome.case_cong)

lemma starting_destructions [simp]: "destructions (starting x l # effs) = destructions effs"
  by (simp add: starting_def)

text \<open>
  Claim C9, as amended. For a request that runs through external processes and is
  answered: when the response is the one of the run step (\<^verbatim>\<open>stage\<close> is
  \<^verbatim>\<open>execution\<close>), the removal of the temp directory is the only one started and is
  deferred by 5000 ms; when the response is the one of the \<^verbatim>\<open>catch\<close> block (it has
  no \<^verbatim>\<open>stage\<close>), the directory is removed at once, with no delay. The deferred
  removal task never throws, also when \<^verbatim>\<open>fs.rmdir\<close> does, and neither the response
  nor any effect of the handler depends on whether the removal succeeds.
\<close>

theorem removal_of_the_temp_directory:
  assumes "validationResult r = []" "language r \<noteq> ''javascript''"
      "answer (handler r e) = Some resp"
  shows "fst (cleanup_task e (path_join (temp_root e) (uuid e))) = Returns ()
       \<and> handler r (e\<lparr>rmdir_result := y\<rparr>) = handler r e
       \<and> (stage resp = Some ''execution'' \<longrightarrow>
            destructions (snd (handler r e)) = [(5000, path_join (temp_root e) (uuid e))])
       \<and> (stage resp = None \<longrightarrow>
            destructions (snd (handler r e)) = [(0, path_join (temp_root e) (uuid e))])"
proof -
  obtain cfg where cfg: "map_of LANGUAGE_CONFIGS (language r) = Some cfg"
    using valid_lookup [OF assms(1)] by blast
  have "fst (executeExternalProcess e (code r) (language r) cfg (input_or_default r) (uuid e)
               (projectId r) (filename r)) = Returns resp"
    using assms(3) unfolding handler_external [OF assms(1) cfg assms(2)]
    by (simp add: answer_def split: outcome.splits)
  from external_stage_destructions [OF this]
  have "(stage resp = Some ''execution'' \<longrightarrow>
            destructions (snd (handler r e)) = [(5000, path_join (temp_root e) (uuid e))])
       \<and> (stage resp = None \<longrightarrow>
            destructions (snd (handler r e)) = [(0, path_join (temp_root e) (uuid e))])"
    unfolding handler_external [OF assms(1) cfg assms(2)] by simp
  moreover have "fst (cleanup_task e (path_join (temp_root e) (uuid e))) = Returns ()"
    by (simp add: cleanup_task_def split: option.splits)
  ultimately show ?thesis
    by (simp add: handler_ignores_rmdir_result)
qed

theorem removal_of_the_temp_directory_witness:
  "validationResult (sample_request ''python'' ''print(1)'') = []
   \<and> language (sample_request ''python'' ''print(1)'') \<noteq> ''javascript''
   \<and> map_option stage (answer (handler (sample_request ''python'' ''print(1)'') sample_env))
       = Some (Some ''execution'')
   \<and> fst (cleanup_task (sample_env\<lparr>rmdir_result := Some ''ENOENT''\<rparr>)
             (path_join ''/srv/temp'' ''3f2a'')) = Returns ()
   \<and> handler (sample_request ''python'' ''print(1)'')
         (sample_env\<lparr>rmdir_result := Some ''ENOENT''\<rparr>)
       = handler (sample_request ''python'' ''print(1)'') sample_env
   \<and> destructions (snd (handler (sample_request ''python'' ''print(1)'') sample_env))
       = [(5000, path_join ''/srv/temp'' ''3f2a'')]"
proof -
  let ?r = "sample_request ''python'' ''print(1)''"
  let ?e = "sample_env\<lparr>rmdir_result := Some ''ENOENT''\<rparr>"
  have v: "validationResult ?r = []"
    by (simp add: valid_sample LANGUAGE_CONFIGS_def)
  have l: "map_of LANGUAGE_CONFIGS (language ?r) = Some python_config"
    by (simp add: sample_request_def lookup_python)
  have n: "language ?r \<noteq> ''javascript''" by (simp add: sample_request_def)
  have c: "\<not> truthy (compile python_config)"
    by (simp add: python_config_def interpreted_def truthy_def)
  have fs: "mkdir_result ?e = None" "writeFile_result ?e = None"
    by (simp_all add: sample_env_def)
  have x: "exit_status (run_events ?e) = Some (ExitCode (Some 0))"
    by (simp add: sample_env_def)
  obtain resp where a: "answer (handler ?r ?e) = Some resp" and s: "stage resp = Some ''execution''"
    unfolding handler_external [OF v l n]
    by (simp add: answer_def external_interpreted [OF fs c] run_step_closed [OF x])
  have u: "temp_root ?e = ''/srv/temp''" "uuid ?e = ''3f2a''"
    by (simp_all add: sample_env_def)
  show ?thesis
    using removal_of_the_temp_directory [OF v n a, where y = None] a s v n
    by (simp add: u handler_ignores_rmdir_result)
qed

text \<open>
  The claim as stated fails: when \<^verbatim>\<open>fs.writeFile\<close> throws, the \<^verbatim>\<open>catch\<close> block
  removes the directory with delay 0.
\<close>

theorem removal_is_immediate_after_an_error:
  "destructions (snd (handler (sample_request ''python'' ''print(1)'')
      (sample_env\<lparr>writeFile_result := Some ''ENOSPC: no space left on device''\<rparr>)))
     = [(0, path_join ''/srv/temp'' ''3f2a'')]"
proof -
  let ?r = "sample_request ''python'' ''print(1)''"
  let ?e = "sample_env\<lparr>writeFile_result := Some ''ENOSPC: no space left on device''\<rparr>"
  have v: "validationResult ?r = []"
    by (simp add: valid_sample LANGUAGE_CONFIGS_def)
  have l: "map_of LANGUAGE_CONFIGS (language ?r) = Some python_config"
    by (simp add: sample_request_def lookup_python)
  have n: "language ?r \<noteq> ''javascript''" by (simp add: sample_request_def)
  have fs: "mkdir_result ?e = None"
      "writeFile_result ?e = Some ''ENOSPC: no space left on device''"
    by (simp_all add: sample_env_def)
  have u: "temp_root ?e = ''/srv/temp''" "uuid ?e = ''3f2a''"
    by (simp_all add: sample_env_def)
  have "destructions (snd (handler ?r ?e)) = [(0, path_join ''/srv/temp'' ''3f2a'')]"
    unfolding handler_external [OF v l n]
    by (simp add: external_write_fail [OF fs] external_catch_effects u)
  then show ?thesis by simp
qed



subsection \<open>A failed compile step\<close>

text \<open>
  Claim C4, as amended. For a valid request whose table entry has \<^verbatim>\<open>compile\<close>, when
  the temp directory and the code file were written and the compiler closes with an
  exit code other than 0, the handler answers with \<^verbatim>\<open>success: false\<close>, with
  \<^verbatim>\<open>stage: 'compilation'\<close>, with the compiler's stderr as \<^verbatim>\<open>error\<close> and with an
  empty \<^verbatim>\<open>output\<close>; the compiler is the only process spawned, the runner is not.
\<close>

theorem compile_failure_skips_run:
  assumes "validationResult r = []" "map_of LANGUAGE_CONFIGS (language r) = Some cfg"
      "truthy (compile cfg)" "mkdir_result e = None" "writeFile_result e = None"
      "exit_status (compile_events e) = Some (ExitCode k)" "k \<noteq> Some 0"
  shows "\<exists>resp cc. compiler cfg = Some cc \<and> answer (handler r e) = Some resp
           \<and> \<not> success resp \<and> stage resp = Some ''compilation''
           \<and> error resp = Some (stderr_of (compile_events e))
           \<and> res_output resp = Some ''''
           \<and> spawns (snd (handler r e))
               = [(cc, or_empty (compilerArgs cfg) @ [file_name (filename r) cfg])]"
proof -
  have n: "language r \<noteq> ''javascript''"
    using table_cases [OF assms(2)] assms(3)
    by (auto simp: javascript_config_def interpreted_def truthy_def)
  obtain cc where cc: "compiler cfg = Some cc"
    using table_cases [OF assms(2)] assms(3) n by auto
  have s: "ExitCode k \<noteq> ExitCode (Some 0)" using assms(7) by simp
  show ?thesis
    unfolding handler_external [OF assms(1,2) n]
    using cc
    by (simp add: answer_def external_compile_failed [OF assms(4,5,3) cc assms(6) s]
        compileCode_effects [OF cc] base_response_def)
qed

theorem compile_failure_skips_run_witness:
  "validationResult (sample_request ''cpp'' ''int main(){return 0}'') = []
   \<and> map_of LANGUAGE_CONFIGS (language (sample_request ''cpp'' ''int main(){return 0}''))
       = Some cpp_config
   \<and> truthy (compile cpp_config)
   \<and> exit_status [StderrData ''code.cpp:1:20: error: expected ;'', Close (Some 1)]
       = Some (ExitCode (Some 1))
   \<and> (\<exists>resp. answer (handler (sample_request ''cpp'' ''int main(){return 0}'')
                 (sample_env\<lparr>compile_events :=
                    [StderrData ''code.cpp:1:20: error: expected ;'', Close (Some 1)]\<rparr>))
                = Some resp
          \<and> \<not> success resp \<and> stage resp = Some ''compilation''
          \<and> error resp = Some ''code.cpp:1:20: error: expected ;'')
   \<and> spawns (snd (handler (sample_request ''cpp'' ''int main(){return 0}'')
         (sample_env\<lparr>compile_events :=
            [StderrData ''code.cpp:1:20: error: expected ;'', Close (Some 1)]\<rparr>)))
       = [(''g++'', [''-o'', ''program'', ''code.cpp''])]"
proof -
  let ?r = "sample_request ''cpp'' ''int main(){return 0}''"
  let ?e = "sample_env\<lparr>compile_events :=
              [StderrData ''code.cpp:1:20: error: expected ;'', Close (Some 1)]\<rparr>"
  have v: "validationResult ?r = []"
    by (simp add: valid_sample LANGUAGE_CONFIGS_def)
  have l: "map_of LANGUAGE_CONFIGS (language ?r) = Some cpp_config"
    by (simp add: sample_request_def lookup_cpp)
  have c: "truthy (compile cpp_config)"
    by (simp add: cpp_config_def compiled_def interpreted_def truthy_def)
  have fs: "mkdir_result ?e = None" "writeFile_result ?e = None"
    by (simp_all add: sample_env_def)
  have x: "exit_status (compile_events ?e) = Some (ExitCode (Some 1))"
    by simp
  have k: "Some (1::int) \<noteq> Some 0" by simp
  have a: "compiler cpp_config = Some ''g++''"
      "or_empty (compilerArgs cpp_config) @ [file_name (filename ?r) cpp_config]
         = [''-o'', ''program'', ''code.cpp'']"
    by (simp_all add: cpp_config_def compiled_def interpreted_def or_empty_def file_name_def
        sample_request_def)
  show ?thesis
    using compile_failure_skips_run [OF v l c fs x k] v l c
    by (auto simp: a)
qed

text \<open>
  The claim as stated fails in the name of the stage: the response says
  \<^verbatim>\<open>compilation\<close>, not \<^verbatim>\<open>compile\<close>.
\<close>

theorem compile_stage_is_named_compilation:
  "map_option stage
     (answer (handler (sample_request ''cpp'' ''int main(){return 0}'')
        (sample_env\<lparr>compile_events :=
           [StderrData ''code.cpp:1:20: error: expected ;'', Close (Some 1)]\<rparr>)))
     = Some (Some ''compilation'')
   \<and> ''compilation'' \<noteq> ''compile''"
proof -
  let ?r = "sample_request ''cpp'' ''int main(){return 0}''"
  let ?e = "sample_env\<lparr>compile_events :=
              [StderrData ''code.cpp:1:20: error: expected ;'', Close (Some 1)]\<rparr>"
  have v: "validationResult ?r = []"
    by (simp add: valid_sample LANGUAGE_CONFIGS_def)
  have l: "map_of LANGUAGE_CONFIGS (language ?r) = Some cpp_config"
    by (simp add: sample_request_def lookup_cpp)
  have n: "language ?r \<noteq> ''javascript''" by (simp add: sample_request_def)
  have c: "truthy (compile cpp_config)" "compiler cpp_config = Some ''g++''"
    by (simp_all add: cpp_config_def compiled_def interpreted_def truthy_def)
  have fs: "mkdir_result ?e = None" "writeFile_result ?e = None"
    by (simp_all add: sample_env_def)
  have x: "exit_status (compile_events ?e) = Some (ExitCode (Some 1))"
    by simp
  have s: "ExitCode (Some 1) \<noteq> ExitCode (Some 0)" by simp
  show ?thesis
    unfolding handler_external [OF v l n]
    by (simp add: answer_def external_compile_failed [OF fs c x s])
qed



subsection \<open>The sandbox\<close>

lemma sandbox_throws:
  assumes "run_script (vm_run e c i) ('''', '''') = (Inl (ErrorWith m), (out, err))"
  shows "executeJavaScriptSandbox e c i x =
           (Returns (base_response\<lparr>success := False, executionId := Some x,
              res_output := Some (trim out), error := Some m,
              executionTime := Some (now_end e - now_start e),
              res_language := Some ''javascript''\<rparr>),
            [NewVM sandbox_vm_options])"
  using assms by (simp add: executeJavaScriptSandbox_def outer_catch_def)

lemma sandbox_value:
  assumes "run_script (vm_run e c i) ('''', '''') = (Inr (Value v), (out, err))"
  shows "executeJavaScriptSandbox e c i x =
           (Returns (sandbox_success e x (append_result v out) err), [NewVM sandbox_vm_options])"
  using assms by (simp add: executeJavaScriptSandbox_def)

lemma sandbox_thenable_rejects:
  assumes "run_script (vm_run e c i) ('''', '''') = (Inr (Thenable t), st)"
      "run_script t st = (Inl (ErrorWith m), (out, err))
       \<or> run_script t st = (Inr (Reject m), (out, err))"
  shows "executeJavaScriptSandbox e c i x =
           (Returns (sandbox_success e x out (promise_error m err)),
            [NewVM sandbox_vm_options, SetTimeout RejectPromiseTimeout EXECUTION_TIMEOUT])"
  using assms by (cases st) (auto simp: executeJavaScriptSandbox_def rejected_def)

lemma run_script_logging:
  "run_script (logging cs s) st = run_script s (foldl (\<lambda>st (c, as). console c as st) st cs)"
  by (induction cs s arbitrary: st rule: logging.induct) simp_all

lemma run_script_denied:
  "m \<notin> set allowedModules \<Longrightarrow>
   run_script (Require m k h) st = run_script (h (not_allowed m)) st"
  by (simp add: sandbox_require_def)

text \<open>
  Claim C8, as amended. The script \<^verbatim>\<open>console.log(2+2)\<close> calls the sandbox's
  \<^verbatim>\<open>console.log\<close> once, with the number 4, and completes with \<^verbatim>\<open>undefined\<close>. For
  a JavaScript request with that code the handler answers with \<^verbatim>\<open>success: true\<close>
  and an \<^verbatim>\<open>output\<close> that starts with the character 4 and, being trimmed, does not
  end with a newline or any other white space.
\<close>

theorem console_log_of_four:
  assumes "language r = ''javascript''" "code r = ''console.log(2+2)''"
      "vm_run e (code r) (input_or_default r) = Console CLog [JNum 4] (Finish (Value JUndefined))"
  shows "\<exists>resp s. answer (handler r e) = Some resp \<and> success resp
           \<and> res_output resp = Some (CHR ''4'' # s) \<and> \<not> js_space (last (CHR ''4'' # s))"
proof -
  have v: "validationResult r = []"
    using assms(1,2) by (simp add: validationResult_def LANGUAGE_CONFIGS_def)
  have d: "digits 4 = ''4''"
    by code_simp
  have run: "run_script (vm_run e (code r) (input_or_default r)) ('''', '''')
               = (Inr (Value JUndefined), (''4'' @ line_end, ''''))"
    by (simp add: assms(3) d)
  have t: "trim (CHR ''4'' # line_end) = [CHR ''4'', CHR 0x5C, CHR ''n'']"
    by (simp add: trim_def js_space_def line_end_def)
  have "\<exists>resp. answer (handler r e) = Some resp \<and> success resp
           \<and> res_output resp = Some [CHR ''4'', CHR 0x5C, CHR ''n'']"
    unfolding handler_javascript [OF v assms(1)]
    by (simp add: answer_def sandbox_value [OF run] sandbox_success_def append_result_def t
        base_response_def)
  then obtain resp where "answer (handler r e) = Some resp" "success resp"
      "res_output resp = Some (CHR ''4'' # [CHR 0x5C, CHR ''n''])"
    by auto
  moreover have "\<not> js_space (last (CHR ''4'' # [CHR 0x5C, CHR ''n'']))"
    by (simp add: js_space_def)
  ultimately show ?thesis by blast
qed

theorem console_log_of_four_witness:
  "language (sample_request ''javascript'' ''console.log(2+2)'') = ''javascript''
   \<and> code (sample_request ''javascript'' ''console.log(2+2)'') = ''console.log(2+2)''
   \<and> (\<exists>resp s. answer (handler (sample_request ''javascript'' ''console.log(2+2)'')
            (script_env (Console CLog [JNum 4] (Finish (Value JUndefined)))))
          = Some resp \<and> success resp
          \<and> res_output resp = Some (CHR ''4'' # s) \<and> \<not> js_space (last (CHR ''4'' # s)))"
  using console_log_of_four
          [where r = "sample_request ''javascript'' ''console.log(2+2)''"
             and e = "script_env (Console CLog [JNum 4] (Finish (Value JUndefined)))"]
  by (simp add: sample_request_def)

text \<open>
  The claim as stated fails: the \<^verbatim>\<open>output\<close> is the character 4, a backslash and
  the letter n, which is not 4 followed by a newline.
\<close>

theorem console_log_line_end_is_not_a_newline:
  "map_option res_output
     (answer (handler (sample_request ''javascript'' ''console.log(2+2)'')
        (script_env (Console CLog [JNum 4] (Finish (Value JUndefined))))))
     = Some (Some [CHR ''4'', CHR 0x5C, CHR ''n''])
   \<and> [CHR ''4'', CHR 0x5C, CHR ''n''] \<noteq> [CHR ''4'', CHR 0x0A]"
proof -
  let ?r = "sample_request ''javascript'' ''console.log(2+2)''"
  let ?e = "script_env (Console CLog [JNum 4] (Finish (Value JUndefined)))"
  have v: "validationResult ?r = []"
    by (simp add: valid_sample LANGUAGE_CONFIGS_def)
  have l: "language ?r = ''javascript''" by (simp add: sample_request_def)
  have d: "digits 4 = ''4''"
    by code_simp
  have run: "run_script (vm_run ?e (code ?r) (input_or_default ?r)) ('''', '''')
               = (Inr (Value JUndefined), (''4'' @ line_end, ''''))"
    by (simp add: d)
  have t: "trim (CHR ''4'' # line_end) = [CHR ''4'', CHR 0x5C, CHR ''n'']"
    by (simp add: trim_def js_space_def line_end_def)
  show ?thesis
    unfolding handler_javascript [OF v l]
    by (simp add: answer_def sandbox_value [OF run] sandbox_success_def append_result_def t)
qed

text \<open>
  Claim C6, as amended. A call of the sandbox's \<^verbatim>\<open>require\<close> with a module outside
  \<^verbatim>\<open>util\<close>, \<^verbatim>\<open>crypto\<close>, \<^verbatim>\<open>path\<close> never returns a module: it throws the error
  \<^verbatim>\<open>Module '...' is not allowed in sandbox\<close> into the script, whatever the script
  does with it. When a script, after any console calls, makes such a call and does
  not catch the error during its synchronous run, the handler answers with
  \<^verbatim>\<open>success: false\<close> and that message as \<^verbatim>\<open>error\<close>.
\<close>

theorem disallowed_require_is_denied:
  assumes "validationResult r = []" "language r = ''javascript''"
      "m \<notin> set allowedModules"
      "vm_run e (code r) (input_or_default r) = logging cs (Require m k Throw)"
  shows "sandbox_require m = Inl (not_allowed m)
       \<and> (\<forall>h st. run_script (Require m k h) st = run_script (h (not_allowed m)) st)
       \<and> answers_failure (handler r e) (not_allowed m)"
proof -
  obtain out err where st: "foldl (\<lambda>st (c, as). console c as st) ('''', '''') cs = (out, err)"
    by (cases "foldl (\<lambda>st (c, as). console c as st) ('''', '''') cs") auto
  have run: "run_script (vm_run e (code r) (input_or_default r)) ('''', '''')
               = (Inl (ErrorWith (not_allowed m)), (out, err))"
    using assms(3) by (simp add: assms(4) run_script_logging st sandbox_require_def)
  have "answers_failure (handler r e) (not_allowed m)"
    unfolding handler_javascript [OF assms(1,2)]
    by (simp add: answers_failure_def answer_def sandbox_throws [OF run])
  then show ?thesis
    using assms(3) by (simp add: run_script_denied sandbox_require_def)
qed

theorem disallowed_require_is_denied_witness:
  "validationResult (sample_request ''javascript'' ''console.log(1); require('fs')'') = []
   \<and> language (sample_request ''javascript'' ''console.log(1); require('fs')'')
       = ''javascript''
   \<and> ''fs'' \<notin> set allowedModules
   \<and> sandbox_require ''fs'' = Inl (not_allowed ''fs'')
   \<and> answers_failure
        (handler (sample_request ''javascript'' ''console.log(1); require('fs')'')
           (script_env (logging [(CLog, [JNum 1])] (Require ''fs'' (Finish (Value JUndefined)) Throw))))
        (not_allowed ''fs'')"
proof -
  let ?r = "sample_request ''javascript'' ''console.log(1); require('fs')''"
  let ?e = "script_env (logging [(CLog, [JNum 1])] (Require ''fs'' (Finish (Value JUndefined)) Throw))"
  have v: "validationResult ?r = []"
    by (simp add: valid_sample LANGUAGE_CONFIGS_def)
  have l: "language ?r = ''javascript''" by (simp add: sample_request_def)
  have n: "''fs'' \<notin> set allowedModules" by (simp add: allowedModules_def)
  have s: "vm_run ?e (code ?r) (input_or_default ?r)
             = logging [(CLog, [JNum 1])] (Require ''fs'' (Finish (Value JUndefined)) Throw)"
    by simp
  show ?thesis
    using disallowed_require_is_denied [OF v l n s] v l n by simp
qed

text \<open>
  The claim as stated fails: when the denied call happens inside the \<^verbatim>\<open>then\<close> of a
  thenable that the script completes with, the handler answers with \<^verbatim>\<open>success: true\<close>
  and reports the denial as a \<^verbatim>\<open>Promise error\<close> line of the \<^verbatim>\<open>error\<close> field.
\<close>

theorem denied_require_in_a_thenable_succeeds:
  "map_option success
     (answer (handler (sample_request ''javascript'' ''({then(){require('fs')}})'')
        (script_env (Finish (Thenable (Require ''fs'' (Finish (Fulfil JUndefined)) Throw))))))
     = Some True
   \<and> map_option error
     (answer (handler (sample_request ''javascript'' ''({then(){require('fs')}})'')
        (script_env (Finish (Thenable (Require ''fs'' (Finish (Fulfil JUndefined)) Throw))))))
     = Some (Some (''Promise error: '' @ not_allowed ''fs'' @ line_end))"
proof -
  let ?r = "sample_request ''javascript'' ''({then(){require('fs')}})''"
  let ?e = "script_env (Finish (Thenable (Require ''fs'' (Finish (Fulfil JUndefined)) Throw)))"
  have v: "validationResult ?r = []"
    by (simp add: valid_sample LANGUAGE_CONFIGS_def)
  have l: "language ?r = ''javascript''" by (simp add: sample_request_def)
  have n: "''fs'' \<notin> set allowedModules" by (simp add: allowedModules_def)
  have run: "run_script (vm_run ?e (code ?r) (input_or_default ?r)) ('''', '''')
               = (Inr (Thenable (Require ''fs'' (Finish (Fulfil JUndefined)) Throw)), ('''', ''''))"
    by simp
  have rej: "run_script (Require ''fs'' (Finish (Fulfil JUndefined)) Throw) ('''', '''')
               = (Inl (ErrorWith (not_allowed ''fs'')), ('''', ''''))
             \<or> run_script (Require ''fs'' (Finish (Fulfil JUndefined)) Throw) ('''', '''')
               = (Inr (Reject (not_allowed ''fs'')), ('''', ''''))"
    using n by (simp add: sandbox_require_def)
  have t: "trim (''Promise error: '' @ not_allowed ''fs'' @ line_end)
             = ''Promise error: '' @ not_allowed ''fs'' @ line_end"
    by (simp add: trim_def js_space_def not_allowed_def line_end_def)
  show ?thesis
    unfolding handler_javascript [OF v l]
    using t
    by (simp add: answer_def sandbox_thenable_rejects [OF run rej] sandbox_success_def
        promise_error_def)
qed



subsection \<open>Failures and the response\<close>
























subsection \<open>The limit and the queue of the execution service\<close>

lemma started_of_append: "started_of (xs @ ys) = started_of xs @ started_of ys"
  by (induction xs rule: started_of.induct) simp_all

lemma ended_of_append: "ended_of (xs @ ys) = ended_of xs + ended_of ys"
  by (induction xs rule: ended_of.induct) simp_all

lemma calls_of_append: "calls_of (xs @ ys) = calls_of xs @ calls_of ys"
  by (induction xs rule: calls_of.induct) simp_all

lemma executeCode_finally_block:
  "currentExecutions s < maxConcurrentExecutions s \<Longrightarrow>
     admitted s (x # executionQueue s) (currentExecutions s + 1) (executeCode s x)"
  "currentExecutions s \<le> maxConcurrentExecutions s \<Longrightarrow>
     admitted s (executionQueue s) (currentExecutions s) (finally_block s)"
proof (induction s x and s rule: executeCode_finally_block.induct)
  case (1 s x)
  show ?case
  proof (cases "has_case (sub_language x)")
    case True
    with "1.prems" show ?thesis
      by (simp add: executeCode.simps [of s x] admitted_def)
  next
    case False
    let ?s1 = "s\<lparr>currentExecutions := currentExecutions s + 1\<rparr>"
    have "admitted ?s1 (executionQueue ?s1) (currentExecutions ?s1) (finally_block ?s1)"
      using "1.IH" [of ?s1] "1.prems" False by simp
    with "1.prems" False show ?thesis
      by (auto simp: executeCode.simps [of s x] admitted_def split: prod.splits)
  qed
next
  case (2 s)
  let ?s1 = "s\<lparr>currentExecutions := currentExecutions s - 1\<rparr>"
  show ?case
  proof (cases "executionQueue s")
    case Nil
    then show ?thesis
      by (simp add: finally_block.simps [of s] admitted_def)
  next
    case (Cons nextExecution rest)
    have "admitted (?s1\<lparr>executionQueue := rest\<rparr>)
            (nextExecution # executionQueue (?s1\<lparr>executionQueue := rest\<rparr>))
            (currentExecutions (?s1\<lparr>executionQueue := rest\<rparr>) + 1)
            (executeCode (?s1\<lparr>executionQueue := rest\<rparr>) nextExecution)"
      using "2.IH" [of ?s1 nextExecution rest] "2.prems" Cons by simp
    with Cons show ?thesis
      by (simp add: finally_block.simps [of s] admitted_def split: prod.splits)
  qed
qed

lemma executeCode_starts:
  "currentExecutions s < maxConcurrentExecutions s \<Longrightarrow>
     \<exists>effs. snd (executeCode s x) = ExecutionStarted x # effs"
  by (simp add: executeCode.simps [of s x] Let_def split: prod.splits)

lemma service_step_in_order:
  assumes "in_order N evs res"
  shows "in_order N (evs @ [ev]) (service_step res ev)"
proof -
  obtain s tr where res: "res = (s, tr)" by (cases res)
  note inv = assms [unfolded res in_order_def, simplified]
  show ?thesis
  proof (cases ev)
    case (Call x)
    show ?thesis
    proof (cases "currentExecutions s < maxConcurrentExecutions s")
      case True
      then have q: "executionQueue s = []" using inv by auto
      obtain s' effs where r: "executeCode s x = (s', effs)" by (cases "executeCode s x")
      note a = executeCode_finally_block(1) [OF True, of x, unfolded r q admitted_def, simplified]
      from executeCode_starts [OF True, of x] r
      have "started_of effs \<noteq> []" by auto
      with a have "executionQueue s' = []"
        by (cases "started_of effs") auto
      with a inv True r
      show ?thesis
        by (auto simp: res Call in_order_def admitted_def started_of_append ended_of_append
            calls_of_append)
    next
      case False
      then have "executeCode s x = (s\<lparr>executionQueue := executionQueue s @ [x]\<rparr>, [])"
        by (simp add: executeCode.simps [of s x])
      with inv False show ?thesis
        by (auto simp: res Call in_order_def calls_of_append)
    qed
  next
    case (Settled outcome)
    show ?thesis
    proof (cases "currentExecutions s \<le> 0")
      case True
      with inv show ?thesis
        by (auto simp: res Settled in_order_def calls_of_append)
    next
      case False
      have le: "currentExecutions s \<le> maxConcurrentExecutions s" using inv by simp
      obtain s' effs where r: "finally_block s = (s', effs)" by (cases "finally_block s")
      from executeCode_finally_block(2) [OF le] r inv False
      show ?thesis
        by (cases outcome)
           (auto simp: res Settled in_order_def admitted_def started_of_append ended_of_append
              calls_of_append)
    qed
  qed
qed

lemma service_run_in_order:
  assumes "0 \<le> N"
  shows "in_order N evs (service_run (constructed\<lparr>maxConcurrentExecutions := N\<rparr>) evs)"
proof (induction evs rule: rev_induct)
  case Nil
  with assms show ?case by (simp add: service_run_def in_order_def constructed_def)
next
  case (snoc ev evs)
  from service_step_in_order [OF snoc.IH, of ev] show ?case
    by (simp add: service_run_def)
qed

lemma has_case_python: "has_case ''python''"
  by (simp add: has_case_def toLowerCase_def lower_char_def)

text \<open>
  Claim C3, as amended. For an execution service with the limit \<open>N\<close> (3 as
  constructed), after any sequence of calls and settlements: the number of running
  executions, which is the number of executions started less the number ended, is
  the service's count and is at most \<open>N\<close>; the submissions started so far followed
  by the queue are the submissions made, in the order they were made, so that
  submissions are admitted in the order of submission; while an entry waits, \<open>N\<close>
  executions are running; when one of them ends, be it with a result or with an
  error, the entry at the head of the queue is started in the same step (for
  \<open>N\<close> above 0); and a call made while \<open>N\<close> executions are running is put at the
  end of the queue, however long the queue is: the queue has no maximum depth and
  no call is refused.
\<close>

theorem admission_is_bounded_and_in_order:
  assumes "0 \<le> N" "service_run (constructed\<lparr>maxConcurrentExecutions := N\<rparr>) evs = (s, tr)"
  shows "currentExecutions s \<le> N
       \<and> int (length (started_of tr)) - int (ended_of tr) = currentExecutions s
       \<and> started_of tr @ executionQueue s = calls_of evs
       \<and> (executionQueue s \<noteq> [] \<longrightarrow> currentExecutions s = N)
       \<and> (0 < N \<and> executionQueue s = y # q \<longrightarrow>
            (\<exists>effs. snd (service_step (s, tr) (Settled res))
                      = tr @ [case res of None \<Rightarrow> ExecutionCompleted
                                | Some m \<Rightarrow> ExecutionError m,
                              ExecutionStarted y] @ effs))
       \<and> (currentExecutions s = N \<longrightarrow>
            executeCode s x = (s\<lparr>executionQueue := executionQueue s @ [x]\<rparr>, []))"
proof -
  have inv: "in_order N evs (s, tr)"
    using service_run_in_order [OF assms(1), of evs] assms(2) by simp
  have head: "\<exists>effs. snd (service_step (s, tr) (Settled res))
                      = tr @ [case res of None \<Rightarrow> ExecutionCompleted
                                | Some m \<Rightarrow> ExecutionError m,
                              ExecutionStarted y] @ effs"
    if "0 < N" "executionQueue s = y # q"
  proof -
    let ?s1 = "s\<lparr>currentExecutions := currentExecutions s - 1, executionQueue := q\<rparr>"
    have c: "currentExecutions s = N" "maxConcurrentExecutions s = N"
      using inv that(2) by (simp_all add: in_order_def)
    then have "currentExecutions ?s1 < maxConcurrentExecutions ?s1" by simp
    from executeCode_starts [OF this, of y]
    obtain effs where "snd (executeCode ?s1 y) = ExecutionStarted y # effs" by blast
    then have "snd (finally_block s) = ExecutionStarted y # effs"
      using that(2) by (simp add: finally_block.simps [of s])
    with c that(1) show ?thesis
      by (simp add: split_beta)
  qed
  from inv head show ?thesis
    by (auto simp: in_order_def executeCode.simps [of s x])
qed

theorem admission_is_bounded_and_in_order_witness:
  "(0::int) \<le> 3
   \<and> service_run (constructed\<lparr>maxConcurrentExecutions := 3\<rparr>)
        [Call (sample_call ''a''), Call (sample_call ''b''), Call (sample_call ''c''),
         Call (sample_call ''d''), Call (sample_call ''e''), Settled None]
      = (\<lparr>executionQueue = [sample_call ''e''], maxConcurrentExecutions = 3,
          currentExecutions = 3\<rparr>,
         [ExecutionStarted (sample_call ''a''), ExecutionStarted (sample_call ''b''),
          ExecutionStarted (sample_call ''c''), ExecutionCompleted,
          ExecutionStarted (sample_call ''d'')])
   \<and> started_of [ExecutionStarted (sample_call ''a''), ExecutionStarted (sample_call ''b''),
          ExecutionStarted (sample_call ''c''), ExecutionCompleted,
          ExecutionStarted (sample_call ''d'')] @ [sample_call ''e'']
      = calls_of [Call (sample_call ''a''), Call (sample_call ''b''), Call (sample_call ''c''),
         Call (sample_call ''d''), Call (sample_call ''e''), Settled None]
   \<and> (\<exists>effs. snd (service_step
                 (\<lparr>executionQueue = [sample_call ''e''], maxConcurrentExecutions = 3,
                    currentExecutions = 3\<rparr>,
                  [ExecutionStarted (sample_call ''a''), ExecutionStarted (sample_call ''b''),
                   ExecutionStarted (sample_call ''c''), ExecutionCompleted,
                   ExecutionStarted (sample_call ''d'')])
                 (Settled (Some ''boom'')))
        = [ExecutionStarted (sample_call ''a''), ExecutionStarted (sample_call ''b''),
           ExecutionStarted (sample_call ''c''), ExecutionCompleted,
           ExecutionStarted (sample_call ''d'')]
          @ [ExecutionError ''boom'', ExecutionStarted (sample_call ''e'')] @ effs)"
proof -
  have l: "has_case (sub_language (sample_call t))" for t
    by (simp add: sample_call_def has_case_python)
  have run: "service_run (constructed\<lparr>maxConcurrentExecutions := 3\<rparr>)
        [Call (sample_call ''a''), Call (sample_call ''b''), Call (sample_call ''c''),
         Call (sample_call ''d''), Call (sample_call ''e''), Settled None]
      = (\<lparr>executionQueue = [sample_call ''e''], maxConcurrentExecutions = 3,
          currentExecutions = 3\<rparr>,
         [ExecutionStarted (sample_call ''a''), ExecutionStarted (sample_call ''b''),
          ExecutionStarted (sample_call ''c''), ExecutionCompleted,
          ExecutionStarted (sample_call ''d'')])"
    by (simp add: service_run_def constructed_def executeCode.simps finally_block.simps l)
  show ?thesis
    using admission_is_bounded_and_in_order
            [OF _ run, where y = "sample_call ''e''" and q = "[]" and res = "Some ''boom''"
               and x = "sample_call ''f''"]
      run
    by simp
qed

text \<open>
  The claim as stated fails in its last part: whatever depth were configured for
  the queue, two say, a sixth call finds three entries in the queue and is neither
  refused nor answered with an error.
\<close>

theorem queue_grows_past_any_depth:
  "executionQueue (fst (service_run constructed
      [Call (sample_call ''a''), Call (sample_call ''b''), Call (sample_call ''c''),
       Call (sample_call ''d''), Call (sample_call ''e''), Call (sample_call ''f'')]))
     = [sample_call ''d'', sample_call ''e'', sample_call ''f'']
   \<and> snd (service_run constructed
      [Call (sample_call ''a''), Call (sample_call ''b''), Call (sample_call ''c''),
       Call (sample_call ''d''), Call (sample_call ''e''), Call (sample_call ''f'')])
     = [ExecutionStarted (sample_call ''a''), ExecutionStarted (sample_call ''b''),
        ExecutionStarted (sample_call ''c'')]
   \<and> \<not> length [sample_call ''d'', sample_call ''e'', sample_call ''f''] \<le> (2::nat)"
proof -
  have l: "has_case (sub_language (sample_call t))" for t
    by (simp add: sample_call_def has_case_python)
  show ?thesis
    by (simp add: service_run_def constructed_def executeCode.simps finally_block.simps l)
qed

end
